theory Spec2Isabelle
  imports Complex_Main "HOL-Library.Sublist"
begin

section \<open>JavaScript values, errors and strings\<close>

text \<open>
  The three modules (the Gemini summarizer, the static-file policy checker and the
  live-fetch policy checker) and the request handler exchange plain JavaScript values:
  what \<^verbatim>\<open>JSON.parse\<close> returns, what a property read returns, what is sent back.
  A number is its numeric value; an object is the list of its own properties in
  insertion order; an array carries its elements and, since an array is an object too,
  the named own properties that were assigned to it (none after \<^verbatim>\<open>JSON.parse\<close>).
  A string is the list of its code units (those below 256, the characters of
  \<^typ>\<open>string\<close>).
\<close>

datatype jsnum = Finite rat | PosInfinity | NegInfinity | NaN

datatype jsval =
    JUndefined
  | JNull
  | JBool bool
  | JNum jsnum
  | JStr string
  | JArr "jsval list" "(string \<times> jsval) list"
  | JObj "(string \<times> jsval) list"

text \<open>A thrown value: the constructor of the error object and its message.\<close>

datatype error = Error string | TypeError string | SyntaxError string

fun message :: "error \<Rightarrow> string" where
  "message (Error m) = m"
| "message (TypeError m) = m"
| "message (SyntaxError m) = m"

fun constructor_name :: "error \<Rightarrow> string" where
  "constructor_name (Error m) = ''Error''"
| "constructor_name (TypeError m) = ''TypeError''"
| "constructor_name (SyntaxError m) = ''SyntaxError''"

text \<open>\<^verbatim>\<open>!v\<close> is \<open>\<not> truthy v\<close>.\<close>

fun truthy :: "jsval \<Rightarrow> bool" where
  "truthy JUndefined = False"
| "truthy JNull = False"
| "truthy (JBool b) = b"
| "truthy (JNum n) = (n \<noteq> Finite 0 \<and> n \<noteq> NaN)"
| "truthy (JStr s) = (s \<noteq> [])"
| "truthy (JArr xs ps) = True"
| "truthy (JObj kvs) = True"

text \<open>\<^verbatim>\<open>a || b\<close> on values.\<close>

definition js_or :: "jsval \<Rightarrow> jsval \<Rightarrow> jsval" where
  "js_or a b = (if truthy a then a else b)"

text \<open>
  The property read \<^verbatim>\<open>v.k\<close>, for the property names the sources use
  (\<^verbatim>\<open>violated\<close>, \<^verbatim>\<open>violations\<close>, \<^verbatim>\<open>category\<close>, \<^verbatim>\<open>summary\<close>, ...): none of them
  is inherited from a prototype, so the read finds an own property or gives
  \<^verbatim>\<open>undefined\<close>; on \<^verbatim>\<open>null\<close> and \<^verbatim>\<open>undefined\<close> it throws a TypeError.
\<close>

definition own :: "(string \<times> jsval) list \<Rightarrow> string \<Rightarrow> jsval" where
  "own kvs k = (case map_of kvs k of None \<Rightarrow> JUndefined | Some v \<Rightarrow> v)"

fun get_prop :: "jsval \<Rightarrow> string \<Rightarrow> error + jsval" where
  "get_prop JUndefined k =
     Inl (TypeError (''Cannot read properties of undefined (reading '' @ [CHR 0x27] @ k @ [CHR 0x27] @ '')''))"
| "get_prop JNull k =
     Inl (TypeError (''Cannot read properties of null (reading '' @ [CHR 0x27] @ k @ [CHR 0x27] @ '')''))"
| "get_prop (JObj kvs) k = Inr (own kvs k)"
| "get_prop (JArr xs ps) k = Inr (own ps k)"
| "get_prop v k = Inr JUndefined"

text \<open>
  The assignment \<^verbatim>\<open>v.k = x\<close> in strict mode (the summarizer is an ES module): it
  replaces or appends the own property of an object or array and throws a TypeError on
  every other value. The engine's message for a primitive goes on to print the
  primitive; that part is left out.
\<close>

fun upd :: "(string \<times> jsval) list \<Rightarrow> string \<Rightarrow> jsval \<Rightarrow> (string \<times> jsval) list" where
  "upd [] k x = [(k, x)]"
| "upd ((k', v) # kvs) k x = (if k' = k then (k, x) # kvs else (k', v) # upd kvs k x)"

fun set_prop :: "jsval \<Rightarrow> string \<Rightarrow> jsval \<Rightarrow> error + jsval" where
  "set_prop (JObj kvs) k x = Inr (JObj (upd kvs k x))"
| "set_prop (JArr xs ps) k x = Inr (JArr xs (upd ps k x))"
| "set_prop JUndefined k x =
     Inl (TypeError (''Cannot set properties of undefined (setting '' @ [CHR 0x27] @ k @ [CHR 0x27] @ '')''))"
| "set_prop JNull k x =
     Inl (TypeError (''Cannot set properties of null (setting '' @ [CHR 0x27] @ k @ [CHR 0x27] @ '')''))"
| "set_prop v k x =
     Inl (TypeError (''Cannot create property '' @ [CHR 0x27] @ k @ [CHR 0x27]))"

text \<open>\<^verbatim>\<open>String.prototype.trim\<close>: white space and line terminators are removed at both ends.\<close>

definition js_space :: "char \<Rightarrow> bool" where
  "js_space c = (c \<in> set [CHR 0x09, CHR 0x0A, CHR 0x0B, CHR 0x0C, CHR 0x0D, CHR 0x20, CHR 0xA0])"

definition trim :: "string \<Rightarrow> string" where
  "trim s = rev (dropWhile js_space (rev (dropWhile js_space s)))"

text \<open>
  \<^verbatim>\<open>text.match(/\{[\s\S]*\}/)\<close> and \<^verbatim>\<open>text.match(/\{.*\}/s)\<close>: the match starts at
  the first opening brace and, the star being greedy over every character, ends at the
  last closing brace after it; there is no match when no closing brace follows the first
  opening brace. \<open>bracket_match\<close> is the same for \<^verbatim>\<open>/\[.*\]/s\<close>.
\<close>

definition delim_match :: "char \<Rightarrow> char \<Rightarrow> string \<Rightarrow> string option" where
  "delim_match l r text =
     (case dropWhile (\<lambda>c. c \<noteq> l) text of
        [] \<Rightarrow> None
      | c # rest \<Rightarrow>
          (case rev (dropWhile (\<lambda>c. c \<noteq> r) (rev rest)) of
             [] \<Rightarrow> None
           | inner \<Rightarrow> Some (c # inner)))"

definition brace_match :: "string \<Rightarrow> string option" where
  "brace_match = delim_match (CHR ''{'') (CHR ''}'')"

definition bracket_match :: "string \<Rightarrow> string option" where
  "bracket_match = delim_match (CHR ''['') (CHR '']'')"

text \<open>The decimal numeral of an array index, as a template string prints it.\<close>

fun digit_char :: "nat \<Rightarrow> char" where
  "digit_char n = char_of (48 + n)"

fun show_nat :: "nat \<Rightarrow> string" where
  "show_nat n = (if n < 10 then [digit_char n] else show_nat (n div 10) @ [digit_char (n mod 10)])"

declare show_nat.simps [simp del]

section \<open>The world outside the modules\<close>

text \<open>
  Library functions of the runtime and the outcomes of the calls that leave the
  process. \<open>JSON_parse\<close> is \<^verbatim>\<open>JSON.parse\<close> (\<open>Inl\<close> the SyntaxError it throws);
  \<open>path_basename\<close>, \<open>path_extname\<close>, \<open>mime_lookup\<close> (\<open>None\<close> for \<^verbatim>\<open>false\<close>) and \<open>cheerio_text\<close>
  (the text extraction of \<^verbatim>\<open>extractTextFromHtml\<close>) are the library calls of the same
  names. \<open>fs_readFile p\<close> is the outcome of reading the file \<^verbatim>\<open>path.resolve(p)\<close> as
  UTF-8, \<open>fs_stat p\<close> gives \<^verbatim>\<open>isFile()\<close> and \<^verbatim>\<open>size\<close>, \<open>fs_readBase64 p\<close> the content
  in base 64. \<open>gemini_generate\<close> is the outcome of \<^verbatim>\<open>generateContent\<close> followed by
  \<^verbatim>\<open>response.text()\<close>; \<open>http_get\<close> the outcome of the \<^verbatim>\<open>axios.get\<close> of the policy page;
  \<open>claude_extract\<close> and \<open>claude_check\<close> the outcomes of the two
  \<^verbatim>\<open>anthropic.messages.create\<close> calls followed by \<^verbatim>\<open>message.content[0].text\<close>.
  \<open>now\<close> is \<^verbatim>\<open>new Date().toISOString()\<close>.
\<close>

record world =
  JSON_parse :: "string \<Rightarrow> error + jsval"
  path_basename :: "string \<Rightarrow> string"
  path_extname :: "string \<Rightarrow> string"
  mime_lookup :: "string \<Rightarrow> string option"
  cheerio_text :: "string \<Rightarrow> string"
  fs_readFile :: "string \<Rightarrow> error + string"
  fs_pathExists :: "string \<Rightarrow> bool"
  fs_stat :: "string \<Rightarrow> error + (bool \<times> nat)"
  fs_readBase64 :: "string \<Rightarrow> error + string"
  gemini_generate :: "error + string"
  http_get :: "error + string"
  claude_extract :: "error + string"
  claude_check :: "error + string"
  now :: string

section \<open>The static-file policy checker (Gemini)\<close>

text \<open>The checker object: \<^verbatim>\<open>this.policyContent\<close>, \<^verbatim>\<open>null\<close> after construction.\<close>

record checker =
  policyContent :: "string option"

definition new_checker :: checker where
  "new_checker = \<lparr>policyContent = None\<rparr>"

text \<open>
  \<^verbatim>\<open>loadPolicyFile(policyFilePath)\<close>; the argument is a string or \<^verbatim>\<open>null\<close> (the default
  of \<^verbatim>\<open>checkPolicy\<close>, on which \<^verbatim>\<open>path.resolve\<close> throws). The content is stored before
  it is checked for blankness.
\<close>

definition loadPolicyFile :: "world \<Rightarrow> string option \<Rightarrow> checker \<Rightarrow> (error + unit) \<times> checker" where
  "loadPolicyFile w policyFilePath c =
     (case policyFilePath of
        None \<Rightarrow>
          (Inl (Error (''Failed to load policy file: '' @
             ''The \"paths[0]\" argument must be of type string. Received null'')), c)
      | Some p \<Rightarrow>
          (case fs_readFile w p of
             Inl e \<Rightarrow> (Inl (Error (''Failed to load policy file: '' @ message e)), c)
           | Inr content \<Rightarrow>
               (if trim content = []
                then (Inl (Error (''Failed to load policy file: '' @ ''Policy file is empty or invalid'')),
                      c\<lparr>policyContent := Some content\<rparr>)
                else (Inr (), c\<lparr>policyContent := Some content\<rparr>))))"

fun validateInput :: "jsval \<Rightarrow> error + unit" where
  "validateInput (JStr summary) =
     (if summary = [] then Inl (Error ''Summary must be a non-empty string'')
      else if length (trim summary) = 0 then Inl (Error ''Summary cannot be empty'')
      else if length summary > 10000 then Inl (Error ''Summary is too long (max 10,000 characters)'')
      else Inr ())"
| "validateInput v = Inl (Error ''Summary must be a non-empty string'')"

text \<open>The body of the \<^verbatim>\<open>forEach\<close> of \<^verbatim>\<open>validateResponse\<close>, at one index.\<close>

definition check_violation :: "nat \<Rightarrow> jsval \<Rightarrow> error + unit" where
  "check_violation index violation =
     (case get_prop violation ''category'' of
        Inl e \<Rightarrow> Inl e
      | Inr category \<Rightarrow>
          (if \<not> truthy category
           then Inl (Error (''Violation at index '' @ show_nat index @ '' missing required fields''))
           else
             (case get_prop violation ''description'' of
                Inl e \<Rightarrow> Inl e
              | Inr description \<Rightarrow>
                  (if \<not> truthy description
                   then Inl (Error (''Violation at index '' @ show_nat index @
                                    '' missing required fields''))
                   else
                     (case get_prop violation ''severity'' of
                        Inl e \<Rightarrow> Inl e
                      | Inr severity \<Rightarrow>
                          (if severity \<notin> set [JStr ''high'', JStr ''medium'', JStr ''low'']
                           then Inl (Error (''Invalid severity level in violation at index '' @
                                            show_nat index))
                           else Inr ()))))))"

fun check_violations :: "nat \<Rightarrow> jsval list \<Rightarrow> error + unit" where
  "check_violations index [] = Inr ()"
| "check_violations index (violation # rest) =
     (case check_violation index violation of
        Inl e \<Rightarrow> Inl e
      | Inr u \<Rightarrow> check_violations (Suc index) rest)"

fun is_object :: "jsval \<Rightarrow> bool" where
  "is_object (JObj kvs) = True"
| "is_object (JArr xs ps) = True"
| "is_object v = False"

definition validateResponse :: "jsval \<Rightarrow> error + unit" where
  "validateResponse response =
     (if \<not> is_object response then Inl (Error ''Invalid response format'')
      else
        (case get_prop response ''violated'' of
           Inl e \<Rightarrow> Inl e
         | Inr (JBool b) \<Rightarrow>
             (case get_prop response ''violations'' of
                Inl e \<Rightarrow> Inl e
              | Inr (JArr violations ps) \<Rightarrow> check_violations 0 violations
              | Inr v \<Rightarrow> Inl (Error ''Response must include \"violations\" array field''))
         | Inr v \<Rightarrow> Inl (Error ''Response must include \"violated\" boolean field'')))"

text \<open>The object \<^verbatim>\<open>checkPolicy\<close> resolves to: \<^verbatim>\<open>{success, data | error, timestamp}\<close>.\<close>

datatype check_result =
    CheckOk jsval string
  | CheckFailed string string

fun success :: "check_result \<Rightarrow> bool" where
  "success (CheckOk d t) = True"
| "success (CheckFailed e t) = False"

text \<open>The \<^verbatim>\<open>try\<close> block of \<^verbatim>\<open>checkPolicy\<close> that parses the response text.\<close>

definition parse_response :: "world \<Rightarrow> string \<Rightarrow> error + jsval" where
  "parse_response w text =
     (case brace_match text of
        None \<Rightarrow> Inl (Error (''Failed to parse AI response as JSON: '' @ ''No valid JSON found in response''))
      | Some jsonMatch \<Rightarrow>
          (case JSON_parse w jsonMatch of
             Inl e \<Rightarrow> Inl (Error (''Failed to parse AI response as JSON: '' @ message e))
           | Inr analysisResult \<Rightarrow> Inr analysisResult))"

text \<open>
  The outer \<^verbatim>\<open>try\<close> block of \<^verbatim>\<open>checkPolicy(summary, policyFilePath)\<close>, with the
  checker's state threaded through, and \<^verbatim>\<open>checkPolicy\<close> itself, whose \<^verbatim>\<open>catch\<close> turns
  every error into a failure object.
\<close>

definition checkPolicy_body :: "world \<Rightarrow> jsval \<Rightarrow> string option \<Rightarrow> checker \<Rightarrow> (error + jsval) \<times> checker" where
  "checkPolicy_body w summary policyFilePath c =
     (case validateInput summary of
        Inl e \<Rightarrow> (Inl e, c)
      | Inr u \<Rightarrow>
          (let (loaded, c') =
                 (if policyContent c \<in> {None, Some []} \<or> policyFilePath \<notin> {None, Some []}
                  then loadPolicyFile w policyFilePath c
                  else (Inr (), c))
           in case loaded of
                Inl e \<Rightarrow> (Inl e, c')
              | Inr u \<Rightarrow>
                  (case gemini_generate w of
                     Inl e \<Rightarrow> (Inl e, c')
                   | Inr text \<Rightarrow>
                       (case parse_response w text of
                          Inl e \<Rightarrow> (Inl e, c')
                        | Inr analysisResult \<Rightarrow>
                            (case validateResponse analysisResult of
                               Inl e \<Rightarrow> (Inl e, c')
                             | Inr u \<Rightarrow> (Inr analysisResult, c'))))))"

definition checkPolicy :: "world \<Rightarrow> jsval \<Rightarrow> string option \<Rightarrow> checker \<Rightarrow> check_result \<times> checker" where
  "checkPolicy w summary policyFilePath c =
     (case checkPolicy_body w summary policyFilePath c of
        (Inr analysisResult, c') \<Rightarrow> (CheckOk analysisResult (now w), c')
      | (Inl e, c') \<Rightarrow> (CheckFailed (message e) (now w), c'))"

section \<open>The multimedia summarizer\<close>

definition supportedVideoFormats :: "string list" where
  "supportedVideoFormats =
     [''video/mp4'', ''video/avi'', ''video/mov'', ''video/wmv'', ''video/flv'', ''video/webm'',
      ''video/mkv'']"

definition supportedImageFormats :: "string list" where
  "supportedImageFormats =
     [''image/jpeg'', ''image/jpg'', ''image/png'', ''image/gif'', ''image/webp'', ''image/bmp'',
      ''image/tiff'', ''image/svg+xml'']"

definition supportedFormats :: "string list" where
  "supportedFormats = supportedVideoFormats @ supportedImageFormats"

definition maxFileSize :: nat where
  "maxFileSize = 100 * 1024 * 1024"

text \<open>\<^verbatim>\<open>array.join(', ')\<close>.\<close>

fun join_comma :: "string list \<Rightarrow> string" where
  "join_comma [] = []"
| "join_comma [x] = x"
| "join_comma (x # y # ys) = x @ '', '' @ join_comma (y # ys)"

text \<open>
  \<^verbatim>\<open>validateInput(filePath, prompt)\<close> of the summarizer, on two strings: the Joi schema
  wants both non-empty and the prompt of at most 1000 characters. The result is the
  message of the first validation error, if any.
\<close>

definition sm_validateInput :: "string \<Rightarrow> string \<Rightarrow> string option" where
  "sm_validateInput filePath prompt =
     (if filePath = [] then Some ''\"filePath\" is not allowed to be empty''
      else if prompt = [] then Some ''\"prompt\" is not allowed to be empty''
      else if length prompt > 1000
        then Some ''\"prompt\" length must be less than or equal to 1000 characters long''
      else None)"

text \<open>\<^verbatim>\<open>{valid: true, mimeType, size, mediaType}\<close> or \<^verbatim>\<open>{valid: false, error}\<close>.\<close>

datatype file_validation =
    Valid string nat string
  | Invalid string

definition validateMultimediaFile :: "world \<Rightarrow> string \<Rightarrow> file_validation" where
  "validateMultimediaFile w filePath =
     (if \<not> fs_pathExists w filePath then Invalid (''File not found: '' @ filePath)
      else
        (case fs_stat w filePath of
           Inl e \<Rightarrow> Invalid (message e)
         | Inr (isFile, fileSize) \<Rightarrow>
             (if \<not> isFile then Invalid (''Path is not a file: '' @ filePath)
              else if fileSize > maxFileSize
                then Invalid (''File size exceeds maximum limit of '' @
                              show_nat (maxFileSize div (1024 * 1024)) @ ''MB'')
              else
                (case mime_lookup w filePath of
                   None \<Rightarrow>
                     Invalid (''Unsupported file format. Supported formats: '' @
                              join_comma supportedFormats)
                 | Some mimeType \<Rightarrow>
                     (if mimeType = [] \<or> mimeType \<notin> set supportedFormats
                      then Invalid (''Unsupported file format. Supported formats: '' @
                                    join_comma supportedFormats)
                      else Valid mimeType fileSize
                             (if mimeType \<in> set supportedVideoFormats then ''video''
                              else if mimeType \<in> set supportedImageFormats then ''image''
                              else ''unknown''))))))"

definition fileToBase64 :: "world \<Rightarrow> string \<Rightarrow> error + string" where
  "fileToBase64 w filePath =
     (case fs_readBase64 w filePath of
        Inl e \<Rightarrow> Inl (Error (''Failed to read file: '' @ message e))
      | Inr b \<Rightarrow> Inr b)"

text \<open>
  The two nested \<^verbatim>\<open>try\<close> blocks that turn the response text into \<^verbatim>\<open>analysisResult\<close>:
  the direct parse, then the parse of the brace match, then the raw text as summary.
\<close>

definition raw_text_result :: "string \<Rightarrow> jsval" where
  "raw_text_result text =
     JObj [(''summary'', JStr (trim text)),
           (''keyPoints'', JArr [JStr ''Raw analysis response provided''] []),
           (''note'', JStr ''Response was not in expected JSON format, using raw text'')]"

definition parse_analysis :: "world \<Rightarrow> string \<Rightarrow> jsval" where
  "parse_analysis w text =
     (case JSON_parse w text of
        Inr analysisResult \<Rightarrow> analysisResult
      | Inl parseError \<Rightarrow>
          (case brace_match text of
             None \<Rightarrow> raw_text_result text
           | Some jsonMatch \<Rightarrow>
               (case JSON_parse w jsonMatch of
                  Inr analysisResult \<Rightarrow> analysisResult
                | Inl secondParseError \<Rightarrow> raw_text_result text)))"

definition fileMetadata :: "world \<Rightarrow> string \<Rightarrow> nat \<Rightarrow> string \<Rightarrow> string \<Rightarrow> jsval" where
  "fileMetadata w filePath fileSize mimeType mediaType =
     JObj [(''fileName'', JStr (path_basename w filePath)),
           (''fileSize'', JNum (Finite (of_nat fileSize))),
           (''mimeType'', JStr mimeType),
           (''mediaType'', JStr mediaType),
           (''analyzedAt'', JStr (now w))]"

text \<open>
  The object \<^verbatim>\<open>analyzeMultimedia\<close> resolves to: \<^verbatim>\<open>{success: true, data, error: null}\<close> or
  \<^verbatim>\<open>{success: false, data: null, error: {message, timestamp, type}}\<close>.
\<close>

datatype analysis_result =
    AnalysisOk jsval
  | AnalysisFailed string string string

definition analyzeMultimedia_body :: "world \<Rightarrow> string \<Rightarrow> string \<Rightarrow> error + jsval" where
  "analyzeMultimedia_body w filePath prompt =
     (case sm_validateInput filePath prompt of
        Some m \<Rightarrow> Inl (Error (''Input validation failed: '' @ m))
      | None \<Rightarrow>
          (case validateMultimediaFile w filePath of
             Invalid m \<Rightarrow> Inl (Error (''File validation failed: '' @ m))
           | Valid mimeType fileSize mediaType \<Rightarrow>
               (case fileToBase64 w filePath of
                  Inl e \<Rightarrow> Inl e
                | Inr base64Data \<Rightarrow>
                    (case gemini_generate w of
                       Inl e \<Rightarrow> Inl e
                     | Inr text \<Rightarrow>
                         set_prop (parse_analysis w text) ''fileMetadata''
                           (fileMetadata w filePath fileSize mimeType mediaType)))))"

definition analyzeMultimedia :: "world \<Rightarrow> string \<Rightarrow> string \<Rightarrow> analysis_result" where
  "analyzeMultimedia w filePath prompt =
     (case analyzeMultimedia_body w filePath prompt of
        Inr analysisResult \<Rightarrow> AnalysisOk analysisResult
      | Inl e \<Rightarrow> AnalysisFailed (message e) (now w) (constructor_name e))"

section \<open>The live-fetch policy checker (Claude)\<close>

text \<open>The checker object: \<^verbatim>\<open>this.cachedPolicies\<close>, \<^verbatim>\<open>null\<close> after construction.\<close>

record dyn_checker =
  cachedPolicies :: jsval

definition new_dyn_checker :: dyn_checker where
  "new_dyn_checker = \<lparr>cachedPolicies = JNull\<rparr>"

text \<open>The calls that leave the process, recorded in the order they are issued.\<close>

datatype effect = FetchPage | ExtractCall | CheckCall

definition fetchMetaPolicies :: "world \<Rightarrow> error + string" where
  "fetchMetaPolicies w =
     (case http_get w of
        Inl e \<Rightarrow> Inl (Error (''Failed to fetch Meta policies: '' @ message e))
      | Inr d \<Rightarrow> Inr d)"

text \<open>\<^verbatim>\<open>text.replace(/\s+/g, ' ')\<close>: every maximal run of white space becomes one
  space (written when the last character of the run is reached).\<close>

fun collapse_ws :: "string \<Rightarrow> string" where
  "collapse_ws [] = []"
| "collapse_ws (c # cs) =
     (if js_space c
      then (if cs \<noteq> [] \<and> js_space (hd cs) then collapse_ws cs else CHR '' '' # collapse_ws cs)
      else c # collapse_ws cs)"

definition extractTextFromHtml :: "world \<Rightarrow> string \<Rightarrow> string" where
  "extractTextFromHtml w html = trim (collapse_ws (cheerio_text w html))"

text \<open>
  The cleaning of the response text: control characters are removed, then the
  two-character sequences backslash-n, backslash-t and backslash-r become the characters
  they name.
\<close>

definition control_char :: "char \<Rightarrow> bool" where
  "control_char c = (of_char c \<le> (0x1F :: nat) \<or> ((0x7F :: nat) \<le> of_char c \<and> of_char c \<le> (0x9F :: nat)))"

fun replace_escape :: "char \<Rightarrow> char \<Rightarrow> string \<Rightarrow> string" where
  "replace_escape l r (x # y # zs) =
     (if x = CHR 0x5C \<and> y = l then r # replace_escape l r zs else x # replace_escape l r (y # zs))"
| "replace_escape l r xs = xs"

definition clean_text :: "string \<Rightarrow> string" where
  "clean_text s =
     replace_escape (CHR ''r'') (CHR 0x0D)
       (replace_escape (CHR ''t'') (CHR 0x09)
          (replace_escape (CHR ''n'') (CHR 0x0A) (filter (\<lambda>c. \<not> control_char c) s)))"

definition extractPolicies_body :: "world \<Rightarrow> string \<Rightarrow> error + jsval" where
  "extractPolicies_body w content =
     (case claude_extract w of
        Inl e \<Rightarrow> Inl e
      | Inr responseText \<Rightarrow>
          (let cleanedText = trim (clean_text responseText)
           in case JSON_parse w cleanedText of
                Inr policies \<Rightarrow> Inr policies
              | Inl parseError \<Rightarrow>
                  (case bracket_match cleanedText of
                     Some jsonMatch \<Rightarrow> JSON_parse w (clean_text jsonMatch)
                   | None \<Rightarrow>
                       Inl (Error (''Failed to parse policies JSON from Claude response: '' @
                                   message parseError)))))"

definition extractPoliciesWithClaude :: "world \<Rightarrow> string \<Rightarrow> error + jsval" where
  "extractPoliciesWithClaude w content =
     (case extractPolicies_body w content of
        Inl e \<Rightarrow> Inl (Error (''Failed to extract policies with Claude: '' @ message e))
      | Inr policies \<Rightarrow> Inr policies)"

text \<open>
  \<^verbatim>\<open>getPolicies()\<close>: the result (or the error it rejects with), the checker afterwards
  and the calls it issued.
\<close>

definition getPolicies :: "world \<Rightarrow> dyn_checker \<Rightarrow> (error + jsval) \<times> dyn_checker \<times> effect list" where
  "getPolicies w c =
     (if truthy (cachedPolicies c) then (Inr (cachedPolicies c), c, [])
      else
        (case fetchMetaPolicies w of
           Inl e \<Rightarrow> (Inl e, c, [FetchPage])
         | Inr htmlContent \<Rightarrow>
             (case extractPoliciesWithClaude w (extractTextFromHtml w htmlContent) of
                Inl e \<Rightarrow> (Inl e, c, [FetchPage, ExtractCall])
              | Inr policies \<Rightarrow>
                  (Inr policies, c\<lparr>cachedPolicies := policies\<rparr>, [FetchPage, ExtractCall]))))"

text \<open>The parse of the compliance response: direct, then the brace match.\<close>

definition parse_compliance :: "world \<Rightarrow> string \<Rightarrow> error + jsval" where
  "parse_compliance w responseText =
     (case JSON_parse w responseText of
        Inr result \<Rightarrow> Inr result
      | Inl parseError \<Rightarrow>
          (case brace_match responseText of
             Some jsonMatch \<Rightarrow> JSON_parse w jsonMatch
           | None \<Rightarrow> Inl (Error ''Failed to parse compliance result JSON from Claude response'')))"

definition checkCompliance_body :: "world \<Rightarrow> jsval \<Rightarrow> dyn_checker \<Rightarrow> (error + jsval) \<times> dyn_checker \<times> effect list" where
  "checkCompliance_body w adSummary c =
     (case adSummary of
        JStr s \<Rightarrow>
          (if s = [] then (Inl (Error ''Ad summary must be a non-empty string''), c, [])
           else
             (case getPolicies w c of
                (Inl e, c', effs) \<Rightarrow> (Inl e, c', effs)
              | (Inr policies, c', effs) \<Rightarrow>
                  (case claude_check w of
                     Inl e \<Rightarrow> (Inl e, c', effs @ [CheckCall])
                   | Inr responseText \<Rightarrow> (parse_compliance w responseText, c', effs @ [CheckCall]))))
      | v \<Rightarrow> (Inl (Error ''Ad summary must be a non-empty string''), c, []))"

definition checkCompliance :: "world \<Rightarrow> jsval \<Rightarrow> dyn_checker \<Rightarrow> (error + jsval) \<times> dyn_checker \<times> effect list" where
  "checkCompliance w adSummary c =
     (case checkCompliance_body w adSummary c of
        (Inl e, c', effs) \<Rightarrow> (Inl (Error (''Failed to check compliance: '' @ message e)), c', effs)
      | (Inr result, c', effs) \<Rightarrow> (Inr result, c', effs))"

text \<open>
  The object built in the \<^verbatim>\<open>try\<close> block of \<^verbatim>\<open>checkAdCompliance\<close>; the three property
  reads throw when the result is \<^verbatim>\<open>null\<close>.
\<close>

definition compliance_object :: "jsval \<Rightarrow> error + jsval" where
  "compliance_object result =
     (case get_prop result ''compliant'' of
        Inl e \<Rightarrow> Inl e
      | Inr compliant \<Rightarrow>
          (case get_prop result ''violatedPolicies'' of
             Inl e \<Rightarrow> Inl e
           | Inr violatedPolicies \<Rightarrow>
               (case get_prop result ''details'' of
                  Inl e \<Rightarrow> Inl e
                | Inr details \<Rightarrow>
                    Inr (JObj [(''compliant'', js_or compliant (JBool False)),
                               (''violatedPolicies'', js_or violatedPolicies (JArr [] [])),
                               (''details'', js_or details (JObj []))]))))"

definition error_object :: "error \<Rightarrow> jsval" where
  "error_object e =
     JObj [(''compliant'', JBool False),
           (''violatedPolicies'', JArr [] []),
           (''details'', JObj [(''error'', JStr (message e)),
                               (''description'', JStr ''An error occurred while checking compliance'')])]"

text \<open>
  \<^verbatim>\<open>checkAdCompliance(adSummary)\<close>: \<open>Inr\<close> the object it resolves to, \<open>Inl\<close> the error it
  would reject with. Both branches of its \<^verbatim>\<open>try\<close>/\<^verbatim>\<open>catch\<close> are written out.
\<close>

definition checkAdCompliance :: "world \<Rightarrow> jsval \<Rightarrow> dyn_checker \<Rightarrow> (error + jsval) \<times> dyn_checker \<times> effect list" where
  "checkAdCompliance w adSummary c =
     (case checkCompliance w adSummary c of
        (Inl e, c', effs) \<Rightarrow> (Inr (error_object e), c', effs)
      | (Inr result, c', effs) \<Rightarrow>
          (case compliance_object result of
             Inl e \<Rightarrow> (Inr (error_object e), c', effs)
           | Inr obj \<Rightarrow> (Inr obj, c', effs)))"

text \<open>
  \<^verbatim>\<open>getPolicies\<close> is an \<^verbatim>\<open>async\<close> function: it runs up to its next \<^verbatim>\<open>await\<close> and
  is resumed when the awaited call settles. Its points of suspension are the phases
  below; one step runs the code between two of them, on the checker all calls share.
  \<open>GP_AwaitExtract content\<close> holds the text passed to \<^verbatim>\<open>extractPoliciesWithClaude\<close>.
\<close>

datatype gp_phase =
    GP_Start
  | GP_AwaitFetch
  | GP_AwaitExtract string
  | GP_Done "error + jsval"

fun gp_step :: "world \<Rightarrow> gp_phase \<Rightarrow> dyn_checker \<Rightarrow> gp_phase \<times> dyn_checker \<times> effect list" where
  "gp_step w GP_Start c =
     (if truthy (cachedPolicies c) then (GP_Done (Inr (cachedPolicies c)), c, [])
      else (GP_AwaitFetch, c, [FetchPage]))"
| "gp_step w GP_AwaitFetch c =
     (case fetchMetaPolicies w of
        Inl e \<Rightarrow> (GP_Done (Inl e), c, [])
      | Inr htmlContent \<Rightarrow> (GP_AwaitExtract (extractTextFromHtml w htmlContent), c, [ExtractCall]))"
| "gp_step w (GP_AwaitExtract content) c =
     (case extractPoliciesWithClaude w content of
        Inl e \<Rightarrow> (GP_Done (Inl e), c, [])
      | Inr policies \<Rightarrow> (GP_Done (Inr policies), c\<lparr>cachedPolicies := policies\<rparr>, []))"
| "gp_step w (GP_Done r) c = (GP_Done r, c, [])"

text \<open>
  Two calls in flight on one checker. The first call sees the world \<open>wA\<close>, the second
  \<open>wB\<close> (each its own responses); the schedule says which call is resumed next
  (\<open>True\<close> the first). The state is the two phases, the checker and the calls issued.
\<close>

fun run2 :: "world \<Rightarrow> world \<Rightarrow> bool list \<Rightarrow> gp_phase \<times> gp_phase \<times> dyn_checker \<times> effect list
               \<Rightarrow> gp_phase \<times> gp_phase \<times> dyn_checker \<times> effect list" where
  "run2 wA wB [] st = st"
| "run2 wA wB (True # sched) (pa, pb, c, effs) =
     (case gp_step wA pa c of (pa', c', effs') \<Rightarrow> run2 wA wB sched (pa', pb, c', effs @ effs'))"
| "run2 wA wB (False # sched) (pa, pb, c, effs) =
     (case gp_step wB pb c of (pb', c', effs') \<Rightarrow> run2 wA wB sched (pa, pb', c', effs @ effs'))"

text \<open>
  A call that has passed its cache test is in flight: it waits for its fetch, or for the
  extraction from the page it fetched, or it is done with the result of its own fetch
  and extraction (what \<^verbatim>\<open>getPolicies\<close> returns in its world on a fresh checker).
\<close>

fun in_flight :: "world \<Rightarrow> gp_phase \<Rightarrow> bool" where
  "in_flight w GP_Start = False"
| "in_flight w GP_AwaitFetch = True"
| "in_flight w (GP_AwaitExtract content) =
     (case fetchMetaPolicies w of
        Inl e \<Rightarrow> False
      | Inr htmlContent \<Rightarrow> content = extractTextFromHtml w htmlContent)"
| "in_flight w (GP_Done r) = (r = fst (getPolicies w new_dyn_checker))"

section \<open>The request handler\<close>

definition ALLOWED_VIDEO_TYPES :: "string list" where
  "ALLOWED_VIDEO_TYPES = [''mp4'', ''avi'', ''mov'', ''wmv'', ''flv'', ''webm'', ''mkv'']"

definition ALLOWED_IMAGE_TYPES :: "string list" where
  "ALLOWED_IMAGE_TYPES = [''jpg'', ''jpeg'', ''png'', ''gif'', ''bmp'', ''webp'']"

text \<open>
  \<^verbatim>\<open>process.env.GEMINI_API_KEY || 'your-gemini-api-key'\<close>, and the two constructors, which
  throw on a falsy key.
\<close>

definition GEMINI_API_KEY :: "string option \<Rightarrow> string" where
  "GEMINI_API_KEY env = (case env of None \<Rightarrow> ''your-gemini-api-key''
                         | Some k \<Rightarrow> if k = [] then ''your-gemini-api-key'' else k)"

definition new_SummarizeMultiMedia :: "string \<Rightarrow> error + unit" where
  "new_SummarizeMultiMedia apiKey =
     (if apiKey = [] then Inl (Error ''Google Gemini API key is required'') else Inr ())"

definition new_MetaAdsPolicyChecker :: "string \<Rightarrow> error + checker" where
  "new_MetaAdsPolicyChecker apiKey =
     (if apiKey = [] then Inl (Error ''Google AI API key is required'') else Inr new_checker)"

text \<open>\<^verbatim>\<open>req.file\<close> as multer leaves it.\<close>

record upload =
  originalname :: string
  filename :: string
  path :: string
  fsize :: nat
  mimetype :: string

text \<open>\<^verbatim>\<open>toLowerCase\<close> on one code unit below 256.\<close>

definition js_lower :: "char \<Rightarrow> char" where
  "js_lower c =
     (let n = (of_char c :: nat)
      in if (65 \<le> n \<and> n \<le> 90) \<or> (192 \<le> n \<and> n \<le> 222 \<and> n \<noteq> 215) then char_of (n + 32) else c)"

definition fileType_of :: "world \<Rightarrow> string \<Rightarrow> string" where
  "fileType_of w name =
     (let fileExtension = drop 1 (map js_lower (path_extname w name))
      in if fileExtension \<in> set ALLOWED_VIDEO_TYPES then ''video''
         else if fileExtension \<in> set ALLOWED_IMAGE_TYPES then ''image''
         else ''unknown'')"

text \<open>
  \<^verbatim>\<open>fileType.charAt(0).toUpperCase() + fileType.slice(1)\<close>; the file type is one of
  the three lower-case words above.
\<close>

definition capitalize :: "string \<Rightarrow> string" where
  "capitalize s =
     (case s of [] \<Rightarrow> []
      | c # cs \<Rightarrow> (if (97::nat) \<le> of_char c \<and> of_char c \<le> (122::nat)
                   then char_of (of_char c - (32::nat)) else c) # cs)"

definition fileInfo_json :: "upload \<Rightarrow> string \<Rightarrow> string \<Rightarrow> jsval" where
  "fileInfo_json f fileType uploadDate =
     JObj [(''originalName'', JStr (originalname f)),
           (''filename'', JStr (filename f)),
           (''fileSize'', JNum (Finite (of_nat (fsize f)))),
           (''fileType'', JStr fileType),
           (''uploadDate'', JStr uploadDate)]"

text \<open>The \<^verbatim>\<open>analysis\<close> block of both 201 responses; the reads throw on \<^verbatim>\<open>null\<close> data.\<close>

definition analysis_json :: "jsval \<Rightarrow> error + jsval" where
  "analysis_json data =
     (case get_prop data ''summary'' of
        Inl e \<Rightarrow> Inl e
      | Inr summary \<Rightarrow>
          (case get_prop data ''keyPoints'' of
             Inl e \<Rightarrow> Inl e
           | Inr keyPoints \<Rightarrow>
               (case get_prop data ''fileMetadata'' of
                  Inl e \<Rightarrow> Inl e
                | Inr metadata \<Rightarrow>
                    Inr (JObj [(''summary'', summary), (''keyPoints'', keyPoints),
                               (''fileMetadata'', metadata)]))))"

definition policyCheck_json :: "jsval \<Rightarrow> string \<Rightarrow> error + jsval" where
  "policyCheck_json pdata checkedAt =
     (case get_prop pdata ''violated'' of
        Inl e \<Rightarrow> Inl e
      | Inr violated \<Rightarrow>
          (case get_prop pdata ''violations'' of
             Inl e \<Rightarrow> Inl e
           | Inr violations \<Rightarrow>
               (case get_prop pdata ''reasoning'' of
                  Inl e \<Rightarrow> Inl e
                | Inr reasoning \<Rightarrow>
                    Inr (JObj [(''violated'', violated), (''violations'', violations),
                               (''reasoning'', reasoning), (''checkedAt'', JStr checkedAt)]))))"

text \<open>\<^verbatim>\<open>path.join(__dirname, 'meta-ads-policy-checker', 'meta-ads-policy.txt')\<close>.\<close>

definition policy_file_path :: "string \<Rightarrow> string" where
  "policy_file_path dirname = dirname @ ''/meta-ads-policy-checker/meta-ads-policy.txt''"

text \<open>The prompt the handler passes to the summarizer.\<close>

definition analysisPrompt :: string where
  "analysisPrompt = ''Analyze the provided video or image for potential Meta Ads policy violations and deliver a single-paragraph, 250-word descriptive summary. Detail the main visual content, actions, themes, and any visible text, symbols, logos, audio, and any other content. Clearly highlight any elements likely violating Meta Ads policies, such as prohibited products, misleading claims, violence, nudity, sensitive content, or controversial subjects. Assess the nature and likelihood of any potential violation based on Meta Ads guidelines, keeping the summary factual, objective, and focused on ad intention.''"

datatype http_response = Response nat jsval

text \<open>
  The innermost \<^verbatim>\<open>try\<close> block of the handler (step 3 and 4): \<open>Inr\<close> the body of the
  201 response it sends, \<open>Inl\<close> the error its \<^verbatim>\<open>catch (policyError)\<close> receives.
\<close>

definition policy_try :: "world \<Rightarrow> string \<Rightarrow> string \<Rightarrow> string \<Rightarrow> jsval \<Rightarrow> jsval \<Rightarrow> string \<Rightarrow> error + jsval" where
  "policy_try w apiKey dirname fileType fileInfo data timestamp =
     (case new_MetaAdsPolicyChecker apiKey of
        Inl e \<Rightarrow> Inl e
      | Inr policyChecker \<Rightarrow>
          (case loadPolicyFile w (Some (policy_file_path dirname)) policyChecker of
             (Inl e, c) \<Rightarrow> Inl e
           | (Inr u, c) \<Rightarrow>
               (case get_prop data ''summary'' of
                  Inl e \<Rightarrow> Inl e
                | Inr summary \<Rightarrow>
                    (case fst (checkPolicy w summary None c) of
                       CheckFailed err ts \<Rightarrow> Inl (Error (''Policy analysis failed: '' @ err))
                     | CheckOk pdata ts \<Rightarrow>
                         (case analysis_json data of
                            Inl e \<Rightarrow> Inl e
                          | Inr analysis \<Rightarrow>
                              (case policyCheck_json pdata ts of
                                 Inl e \<Rightarrow> Inl e
                               | Inr policyCheck \<Rightarrow>
                                   Inr (JObj [(''success'', JBool True),
                                              (''message'', JStr (capitalize fileType @
                                                 '' analyzed and policy-checked successfully'')),
                                              (''fileInfo'', fileInfo),
                                              (''analysis'', analysis),
                                              (''policyCheck'', policyCheck),
                                              (''timestamp'', JStr timestamp)])))))))"

text \<open>The \<^verbatim>\<open>catch (policyError)\<close> block: the body of the 201 response it sends.\<close>

definition policy_catch :: "string \<Rightarrow> jsval \<Rightarrow> jsval \<Rightarrow> string \<Rightarrow> error \<Rightarrow> error + jsval" where
  "policy_catch fileType fileInfo data timestamp policyError =
     (case analysis_json data of
        Inl e \<Rightarrow> Inl e
      | Inr analysis \<Rightarrow>
          Inr (JObj [(''success'', JBool True),
                     (''message'', JStr (capitalize fileType @
                        '' analyzed successfully, but policy check failed'')),
                     (''fileInfo'', fileInfo),
                     (''analysis'', analysis),
                     (''policyCheck'', JObj [(''error'', JStr ''Policy analysis failed''),
                                             (''details'', JStr (message policyError))]),
                     (''timestamp'', JStr timestamp)]))"

text \<open>
  The \<^verbatim>\<open>try\<close> block of step 2: \<open>analysisResult\<close> is what
  \<^verbatim>\<open>analyzer.analyzeMultimedia(fileInfo.filePath, analysisPrompt)\<close> resolved to.
\<close>

definition analysis_try :: "world \<Rightarrow> string \<Rightarrow> string \<Rightarrow> string \<Rightarrow> jsval \<Rightarrow> analysis_result \<Rightarrow> string
                              \<Rightarrow> error + http_response" where
  "analysis_try w apiKey dirname fileType fileInfo analysisResult timestamp =
     (case new_SummarizeMultiMedia apiKey of
        Inl e \<Rightarrow> Inl e
      | Inr analyzer \<Rightarrow>
          (case analysisResult of
             AnalysisFailed m ts ty \<Rightarrow> Inl (Error (''Gemini analysis failed: '' @ m))
           | AnalysisOk data \<Rightarrow>
               (case policy_try w apiKey dirname fileType fileInfo data timestamp of
                  Inr body \<Rightarrow> Inr (Response 201 body)
                | Inl policyError \<Rightarrow>
                    (case policy_catch fileType fileInfo data timestamp policyError of
                       Inl e \<Rightarrow> Inl e
                     | Inr body \<Rightarrow> Inr (Response 201 body)))))"

text \<open>
  The handler of \<^verbatim>\<open>POST /summarize\<close> after the upload middleware: \<open>env_key\<close> is the
  environment variable, \<open>uploadDate\<close> and \<open>timestamp\<close> are the two dates it reads.
\<close>

definition summarize_handler :: "world \<Rightarrow> string option \<Rightarrow> string \<Rightarrow> string \<Rightarrow> string \<Rightarrow> upload option
                                   \<Rightarrow> analysis_result \<Rightarrow> http_response" where
  "summarize_handler w env_key dirname uploadDate timestamp file analysisResult =
     (case file of
        None \<Rightarrow>
          Response 400
            (JObj [(''success'', JBool False),
                   (''message'', JStr ''No file provided. Please upload a video or image file.''),
                   (''error'', JStr ''NO_FILE_PROVIDED'')])
      | Some f \<Rightarrow>
          (let fileType = fileType_of w (originalname f);
               fileInfo = fileInfo_json f fileType uploadDate
           in case analysis_try w (GEMINI_API_KEY env_key) dirname fileType fileInfo analysisResult
                     timestamp of
                Inr response \<Rightarrow> response
              | Inl analysisError \<Rightarrow>
                  Response 500
                    (JObj [(''success'', JBool False),
                           (''message'', JStr ''File uploaded successfully but analysis failed''),
                           (''error'', JStr ''ANALYSIS_FAILED''),
                           (''details'', JStr (message analysisError)),
                           (''fileInfo'', fileInfo),
                           (''timestamp'', JStr timestamp)])))"

section \<open>Properties of values, as the specification words them\<close>

text \<open>The field of a value: the own property of an object, \<^verbatim>\<open>undefined\<close> where there is none.\<close>

definition field :: "jsval \<Rightarrow> string \<Rightarrow> jsval" where
  "field v k = (case v of JObj kvs \<Rightarrow> own kvs k | JArr xs ps \<Rightarrow> own ps k | _ \<Rightarrow> JUndefined)"

text \<open>
  A violation entry carries a truthy category and description and a severity drawn from
  high, medium, low.
\<close>

definition violation_wellformed :: "jsval \<Rightarrow> bool" where
  "violation_wellformed v =
     (truthy (field v ''category'') \<and> truthy (field v ''description'') \<and>
      field v ''severity'' \<in> {JStr ''high'', JStr ''medium'', JStr ''low''})"

text \<open>
  The shape of a verdict: \<^verbatim>\<open>violated\<close> is a boolean, \<^verbatim>\<open>violations\<close> is an array, and
  every element of it is a well-formed violation entry.
\<close>

definition verdict_shape :: "jsval \<Rightarrow> bool" where
  "verdict_shape r =
     ((case field r ''violated'' of JBool b \<Rightarrow> True | _ \<Rightarrow> False) \<and>
      (case field r ''violations'' of JArr vs ps \<Rightarrow> list_all violation_wellformed vs | _ \<Rightarrow> False))"

text \<open>
  The invariant of the data model: \<^verbatim>\<open>violated\<close> is false exactly when \<^verbatim>\<open>violations\<close> is
  empty.
\<close>

definition verdict_consistent :: "jsval \<Rightarrow> bool" where
  "verdict_consistent r =
     (case field r ''violations'' of
        JArr vs ps \<Rightarrow> (field r ''violated'' \<noteq> JBool False \<or> vs = []) \<and>
                      (field r ''violated'' \<noteq> JBool True \<or> vs \<noteq> [])
      | _ \<Rightarrow> True)"

text \<open>
  A text that is, as a whole, one JSON object \<open>obj\<close>: between insignificant white space
  it runs from an opening brace to a closing brace, and the runtime parses it, with and
  without that white space, to \<open>obj\<close>.
\<close>

definition json_ws :: "char \<Rightarrow> bool" where
  "json_ws c = (c \<in> set [CHR 0x20, CHR 0x09, CHR 0x0A, CHR 0x0D])"

definition json_strip :: "string \<Rightarrow> string" where
  "json_strip text = rev (dropWhile json_ws (rev (dropWhile json_ws text)))"

definition object_text :: "world \<Rightarrow> string \<Rightarrow> jsval \<Rightarrow> bool" where
  "object_text w text obj =
     (json_strip text \<noteq> [] \<and> hd (json_strip text) = CHR ''{'' \<and> last (json_strip text) = CHR ''}'' \<and>
      JSON_parse w text = Inr obj \<and> JSON_parse w (json_strip text) = Inr obj \<and>
      (case obj of JObj kvs \<Rightarrow> True | _ \<Rightarrow> False))"

text \<open>
  The policy-check stage of the handler fails, with the message \<open>details\<close>: the policy
  file cannot be loaded, or \<^verbatim>\<open>checkPolicy\<close> on the summary returns \<^verbatim>\<open>success = false\<close>.
\<close>

definition policy_stage_fails :: "world \<Rightarrow> string \<Rightarrow> jsval \<Rightarrow> string \<Rightarrow> bool" where
  "policy_stage_fails w dirname summary details =
     (case loadPolicyFile w (Some (policy_file_path dirname)) new_checker of
        (Inl e, c) \<Rightarrow> details = message e
      | (Inr u, c) \<Rightarrow>
          (case fst (checkPolicy w summary None c) of
             CheckFailed err ts \<Rightarrow> details = ''Policy analysis failed: '' @ err
           | CheckOk d ts \<Rightarrow> False))"

section \<open>A reference runtime\<close>

text \<open>
  To run the modules on concrete texts, the library functions are given reference
  implementations: a parser for the JSON grammar (objects built by assigning the members
  in order, so that a repeated key keeps its first position and its last value; string
  escapes up to \<^verbatim>\<open>u00FF\<close>, the alphabet of \<^typ>\<open>string\<close>), and the POSIX \<^verbatim>\<open>basename\<close>
  and \<^verbatim>\<open>extname\<close>. The recursion of the parser is bounded by the length of the text.
\<close>

definition skip_ws :: "string \<Rightarrow> string" where
  "skip_ws = dropWhile json_ws"

definition simple_escape :: "char \<Rightarrow> char option" where
  "simple_escape e =
     (if e = CHR 0x22 then Some (CHR 0x22)
      else if e = CHR 0x5C then Some (CHR 0x5C)
      else if e = CHR ''/'' then Some (CHR ''/'')
      else if e = CHR ''b'' then Some (CHR 0x08)
      else if e = CHR ''f'' then Some (CHR 0x0C)
      else if e = CHR ''n'' then Some (CHR 0x0A)
      else if e = CHR ''r'' then Some (CHR 0x0D)
      else if e = CHR ''t'' then Some (CHR 0x09)
      else None)"

definition hex_digit :: "char \<Rightarrow> nat option" where
  "hex_digit c =
     (let n = (of_char c :: nat)
      in if 48 \<le> n \<and> n \<le> 57 then Some (n - 48)
         else if 65 \<le> n \<and> n \<le> 70 then Some (n - 55)
         else if 97 \<le> n \<and> n \<le> 102 then Some (n - 87)
         else None)"

fun hex4 :: "string \<Rightarrow> (nat \<times> string) option" where
  "hex4 (a # b # c # d # rest) =
     (case (hex_digit a, hex_digit b, hex_digit c, hex_digit d) of
        (Some x, Some y, Some z, Some u) \<Rightarrow> Some (((x * 16 + y) * 16 + z) * 16 + u, rest)
      | _ \<Rightarrow> None)"
| "hex4 s = None"

fun string_body :: "nat \<Rightarrow> string \<Rightarrow> (string \<times> string) option" where
  "string_body 0 s = None"
| "string_body (Suc n) [] = None"
| "string_body (Suc n) (c # cs) =
     (if c = CHR 0x22 then Some ([], cs)
      else if c = CHR 0x5C then
        (case cs of
           [] \<Rightarrow> None
         | e # cs' \<Rightarrow>
             (case simple_escape e of
                Some d \<Rightarrow> map_option (\<lambda>(s, r). (d # s, r)) (string_body n cs')
              | None \<Rightarrow>
                  (if e = CHR ''u'' then
                     (case hex4 cs' of
                        Some (u, r) \<Rightarrow>
                          (if u < 256 then map_option (\<lambda>(s, r'). (char_of u # s, r')) (string_body n r)
                           else None)
                      | None \<Rightarrow> None)
                   else None)))
      else if (of_char c :: nat) < 32 then None
      else map_option (\<lambda>(s, r). (c # s, r)) (string_body n cs))"

definition is_digit :: "char \<Rightarrow> bool" where
  "is_digit c = (48 \<le> (of_char c :: nat) \<and> (of_char c :: nat) \<le> 57)"

definition digits_value :: "string \<Rightarrow> nat" where
  "digits_value ds = foldl (\<lambda>acc c. acc * 10 + (of_char c - 48)) 0 ds"

text \<open>
  A number literal: an optional minus sign, an integer part without leading zero, an
  optional fraction, an optional exponent. Its value is computed exactly.
\<close>

definition number_lit :: "string \<Rightarrow> (jsnum \<times> string) option" where
  "number_lit s =
     (let (neg, s1) = (case s of c # cs \<Rightarrow> if c = CHR ''-'' then (True, cs) else (False, s) | [] \<Rightarrow> (False, s));
          ip = takeWhile is_digit s1; s2 = dropWhile is_digit s1
      in if ip = [] \<or> (length ip > 1 \<and> hd ip = CHR ''0'') then None
         else
           (let (fp, s3, okf) =
                  (case s2 of
                     c # cs \<Rightarrow> if c = CHR ''.''
                                then (takeWhile is_digit cs, dropWhile is_digit cs, takeWhile is_digit cs \<noteq> [])
                                else ([], s2, True)
                   | [] \<Rightarrow> ([], s2, True));
                (eneg, ep, s4, oke) =
                  (case s3 of
                     c # cs \<Rightarrow>
                       if c = CHR ''e'' \<or> c = CHR ''E'' then
                         (let (sg, cs') = (case cs of d # ds \<Rightarrow> if d = CHR ''-'' then (True, ds)
                                                              else if d = CHR ''+'' then (False, ds)
                                                              else (False, cs)
                                           | [] \<Rightarrow> (False, cs))
                          in (sg, takeWhile is_digit cs', dropWhile is_digit cs', takeWhile is_digit cs' \<noteq> []))
                       else (False, [], s3, True)
                   | [] \<Rightarrow> (False, [], s3, True))
            in if \<not> okf \<or> \<not> oke then None
               else
                 (let m = (of_nat (digits_value (ip @ fp)) :: rat) / 10 ^ length fp;
                      v = (if eneg then m / 10 ^ digits_value ep else m * 10 ^ digits_value ep)
                  in Some (Finite (if neg then - v else v), s4))))"

definition literal :: "string \<Rightarrow> jsval \<Rightarrow> string \<Rightarrow> (jsval \<times> string) option" where
  "literal word v s = (if take (length word) s = word then Some (v, drop (length word) s) else None)"

fun value_p :: "nat \<Rightarrow> string \<Rightarrow> (jsval \<times> string) option"
  and elements_p :: "nat \<Rightarrow> string \<Rightarrow> (jsval list \<times> string) option"
  and members_p :: "nat \<Rightarrow> string \<Rightarrow> ((string \<times> jsval) list \<times> string) option" where
  "value_p 0 s = None"
| "value_p (Suc n) s =
     (case skip_ws s of
        [] \<Rightarrow> None
      | c # cs \<Rightarrow>
          (if c = CHR ''{'' then
             (case skip_ws cs of
                [] \<Rightarrow> None
              | d # ds \<Rightarrow>
                  if d = CHR ''}'' then Some (JObj [], ds)
                  else map_option (\<lambda>(kvs, r). (JObj (foldl (\<lambda>acc (k, v). upd acc k v) [] kvs), r))
                         (members_p n cs))
           else if c = CHR ''['' then
             (case skip_ws cs of
                [] \<Rightarrow> None
              | d # ds \<Rightarrow>
                  if d = CHR '']'' then Some (JArr [] [], ds)
                  else map_option (\<lambda>(xs, r). (JArr xs [], r)) (elements_p n cs))
           else if c = CHR 0x22 then map_option (\<lambda>(str, r). (JStr str, r)) (string_body (length cs) cs)
           else if c = CHR ''t'' then literal ''true'' (JBool True) (c # cs)
           else if c = CHR ''f'' then literal ''false'' (JBool False) (c # cs)
           else if c = CHR ''n'' then literal ''null'' JNull (c # cs)
           else map_option (\<lambda>(x, r). (JNum x, r)) (number_lit (c # cs))))"
| "elements_p 0 s = None"
| "elements_p (Suc n) s =
     (case value_p n s of
        None \<Rightarrow> None
      | Some (v, r) \<Rightarrow>
          (case skip_ws r of
             [] \<Rightarrow> None
           | c # cs \<Rightarrow>
               if c = CHR '','' then map_option (\<lambda>(vs, r'). (v # vs, r')) (elements_p n cs)
               else if c = CHR '']'' then Some ([v], cs)
               else None))"
| "members_p 0 s = None"
| "members_p (Suc n) s =
     (case skip_ws s of
        [] \<Rightarrow> None
      | q # cs \<Rightarrow>
          if q \<noteq> CHR 0x22 then None
          else
            (case string_body (length cs) cs of
               None \<Rightarrow> None
             | Some (k, r) \<Rightarrow>
                 (case skip_ws r of
                    [] \<Rightarrow> None
                  | c # r1 \<Rightarrow>
                      if c \<noteq> CHR '':'' then None
                      else
                        (case value_p n r1 of
                           None \<Rightarrow> None
                         | Some (v, r2) \<Rightarrow>
                             (case skip_ws r2 of
                                [] \<Rightarrow> None
                              | d # r3 \<Rightarrow>
                                  if d = CHR '','' then map_option (\<lambda>(kvs, r'). ((k, v) # kvs, r')) (members_p n r3)
                                  else if d = CHR ''}'' then Some ([(k, v)], r3)
                                  else None)))))"

definition json_parse :: "string \<Rightarrow> error + jsval" where
  "json_parse text =
     (case value_p (Suc (length text)) text of
        None \<Rightarrow> Inl (SyntaxError ''Unexpected token in JSON'')
      | Some (v, r) \<Rightarrow> if skip_ws r = [] then Inr v else Inl (SyntaxError ''Unexpected token in JSON''))"

definition posix_basename :: "string \<Rightarrow> string" where
  "posix_basename p =
     rev (takeWhile (\<lambda>c. c \<noteq> CHR ''/'') (dropWhile (\<lambda>c. c = CHR ''/'') (rev p)))"

definition posix_extname :: "string \<Rightarrow> string" where
  "posix_extname p =
     (let b = posix_basename p; e = rev (takeWhile (\<lambda>c. c \<noteq> CHR ''.'') (rev b))
      in if CHR ''.'' \<notin> set b \<or> length b = Suc (length e) \<or> b = ''..'' then []
         else CHR ''.'' # e)"

text \<open>
  A world in which nothing outside the process answers: no file exists and every
  remote call fails. The examples below update it with what answers in each scenario.
\<close>

definition silent_world :: world where
  "silent_world =
     \<lparr>JSON_parse = json_parse,
      path_basename = posix_basename,
      path_extname = posix_extname,
      mime_lookup = (\<lambda>p. None),
      cheerio_text = (\<lambda>html. html),
      fs_readFile = (\<lambda>p. Inl (Error ''ENOENT: no such file or directory'')),
      fs_pathExists = (\<lambda>p. False),
      fs_stat = (\<lambda>p. Inl (Error ''ENOENT: no such file or directory'')),
      fs_readBase64 = (\<lambda>p. Inl (Error ''ENOENT: no such file or directory'')),
      gemini_generate = Inl (Error ''fetch failed''),
      http_get = Inl (Error ''timeout of 30000ms exceeded''),
      claude_extract = Inl (Error ''Connection error.''),
      claude_check = Inl (Error ''Connection error.''),
      now = ''2024-01-15T10:30:00.000Z''\<rparr>"

section \<open>Scenarios\<close>

text \<open>
  Concrete worlds, inputs and responses on which the modules are run below: a policy
  file that exists, a checker that has loaded it, and model responses.
\<close>

definition policy_text :: string where
  "policy_text = ''Prohibited content: deceptive practices, guaranteed financial returns.''"

definition policy_world :: "string \<Rightarrow> world" where
  "policy_world response =
     silent_world
       \<lparr>fs_readFile := (\<lambda>p. if p = ''/app/meta-ads-policy-checker/meta-ads-policy.txt''
                             then Inr policy_text
                             else Inl (Error ''ENOENT: no such file or directory'')),
        gemini_generate := Inr response\<rparr>"

definition loaded_checker :: checker where
  "loaded_checker = \<lparr>policyContent = Some policy_text\<rparr>"

definition violation_entry :: jsval where
  "violation_entry =
     JObj [(''category'', JStr ''Deceptive Practices''),
           (''description'', JStr ''Guaranteed returns''),
           (''severity'', JStr ''high'')]"

definition false_with_violations :: string where
  \<open>false_with_violations =
     ''{"violated": false, "violations": [{"category": "Deceptive Practices", "description": "Guaranteed returns", "severity": "high"}], "reasoning": "none"}''\<close>

definition true_without_violations :: string where
  \<open>true_without_violations = ''{"violated": true, "violations": [], "reasoning": "risky"}''\<close>

definition ad_summary :: jsval where
  "ad_summary = JStr ''Guaranteed 500% returns in 30 days, no risk!''"

definition bad_severity :: string where
  \<open>bad_severity =
     ''{"violated": true, "violations": [{"category": "Alcohol", "description": "Shows beer", "severity": "critical"}], "reasoning": "r"}''\<close>


definition refusal :: string where
  "refusal = ''Sorry, no.''"

definition cached_checker :: dyn_checker where
  "cached_checker =
     \<lparr>cachedPolicies =
        JArr [JObj [(''category'', JStr ''Prohibited Content''),
                    (''name'', JStr ''Deceptive Practices''),
                    (''description'', JStr ''No misleading claims'')]] []\<rparr>"

definition refusing_world :: world where
  "refusing_world = (policy_world refusal)\<lparr>claude_check := Inr refusal\<rparr>"

definition media_path :: string where
  "media_path = ''media/file-1700000000000-123456789.mp4''"

definition media_prompt :: string where
  "media_prompt = ''Summarize this video for an ad review.''"

definition media_world :: "string \<Rightarrow> string \<Rightarrow> world" where
  "media_world response time =
     silent_world
       \<lparr>mime_lookup := (\<lambda>p. if p = media_path then Some ''video/mp4'' else None),
        fs_pathExists := (\<lambda>p. p = media_path),
        fs_stat := (\<lambda>p. if p = media_path then Inr (True, 2048)
                         else Inl (Error ''ENOENT: no such file or directory'')),
        fs_readBase64 := (\<lambda>p. if p = media_path then Inr ''AAAAIGZ0eXBpc29t''
                               else Inl (Error ''ENOENT: no such file or directory'')),
        gemini_generate := Inr response,
        now := time\<rparr>"

definition prose_response :: string where
  "prose_response = '' The clip {no audio} shows a cat. ''"

definition forged_metadata_response :: string where
  \<open>forged_metadata_response =
     ''{"summary": "A cat.", "keyPoints": ["cat"], "fileMetadata": {"fileName": "other.exe", "fileSize": 1, "mimeType": "text/plain", "mediaType": "image"}}''\<close>

definition summary_response :: string where
  \<open>summary_response =
     [CHR 0x0A] @ ''{"summary": "A cat plays.", "keyPoints": ["cat", "toy"]}'' @ [CHR 0x0A]\<close>

definition verdict_response :: string where
  \<open>verdict_response =
     '' {"violated": true, "violations": [{"category": "Deceptive Practices", "description": "Guaranteed returns", "severity": "high"}], "reasoning": "Promises returns."}'' @ [CHR 0x0A]\<close>

definition policy_page :: string where
  "policy_page = ''Ad Standards. Ads must not contain deceptive, false or misleading claims.''"

definition extraction_response :: string where
  \<open>extraction_response =
     ''[{"category": "Prohibited Content", "name": "Deceptive Practices", "description": "No misleading claims"}]''\<close>

definition live_world :: "string \<Rightarrow> world" where
  "live_world check_response =
     silent_world
       \<lparr>http_get := Inr policy_page,
        claude_extract := Inr extraction_response,
        claude_check := Inr check_response\<rparr>"

definition partial_compliance_response :: string where
  \<open>partial_compliance_response = ''{"details": {"riskLevel": "low"}}''\<close>

definition other_extraction_response :: string where
  \<open>other_extraction_response =
     ''[{"category": "Restricted Content", "name": "Alcohol", "description": "Age limits apply"}]''\<close>

definition other_live_world :: world where
  "other_live_world = (live_world [])\<lparr>claude_extract := Inr other_extraction_response\<rparr>"


definition sample_upload :: upload where
  "sample_upload =
     \<lparr>originalname = ''cat.mp4'', filename = ''file-1700000000000-123456789.mp4'',
      path = media_path, fsize = 2048, mimetype = ''video/mp4''\<rparr>"

definition timeout_world :: world where
  "timeout_world =
     (policy_world [])\<lparr>gemini_generate := Inl (Error ''The operation was aborted due to timeout'')\<rparr>"

section \<open>The shape of an accepted verdict\<close>

lemma get_prop_object: "is_object r \<Longrightarrow> get_prop r k = Inr (field r k)"
  by (cases r) (simp_all add: field_def)

lemma field_not_object: "\<not> is_object r \<Longrightarrow> field r k = JUndefined"
  by (cases r) (simp_all add: field_def)

lemma check_violation_iff: "check_violation i v = Inr () \<longleftrightarrow> violation_wellformed v"
proof (cases "is_object v")
  case True
  then show ?thesis
    by (auto simp: check_violation_def get_prop_object violation_wellformed_def)
next
  case False
  then have "field v ''category'' = JUndefined" by (rule field_not_object)
  moreover have "check_violation i v \<noteq> Inr ()"
    using False by (cases v) (simp_all add: check_violation_def)
  ultimately show ?thesis by (simp add: violation_wellformed_def)
qed

lemma check_violations_iff: "check_violations i vs = Inr () \<longleftrightarrow> list_all violation_wellformed vs"
proof (induction vs arbitrary: i)
  case Nil
  show ?case by simp
next
  case (Cons v vs)
  show ?case
  proof (cases "check_violation i v")
    case (Inl e)
    then have "\<not> violation_wellformed v" using check_violation_iff [of i v] by simp
    with Inl show ?thesis by simp
  next
    case (Inr u)
    then have "violation_wellformed v" using check_violation_iff [of i v] by simp
    with Inr Cons.IH [of "Suc i"] show ?thesis by simp
  qed
qed

lemma validateResponse_iff: "validateResponse r = Inr () \<longleftrightarrow> verdict_shape r"
proof (cases "is_object r")
  case False
  then show ?thesis
    by (simp add: validateResponse_def verdict_shape_def field_not_object)
next
  case True
  show ?thesis
  proof (cases "field r ''violated''")
    case (JBool b)
    show ?thesis
      using True JBool
      by (cases "field r ''violations''")
         (simp_all add: validateResponse_def verdict_shape_def get_prop_object check_violations_iff)
  qed (use True in \<open>simp_all add: validateResponse_def verdict_shape_def get_prop_object\<close>)
qed

lemma checkPolicy_body_Inr:
  assumes "checkPolicy_body w summary pfp c = (Inr d, c')"
  shows "\<exists>text m. gemini_generate w = Inr text \<and> brace_match text = Some m \<and>
           JSON_parse w m = Inr d \<and> validateResponse d = Inr ()"
  using assms
  by (auto simp: checkPolicy_body_def parse_response_def Let_def
           split: sum.splits prod.splits option.splits if_splits)

lemma checkPolicy_CheckOk:
  assumes "fst (checkPolicy w summary pfp c) = CheckOk d ts"
  shows "\<exists>text m. gemini_generate w = Inr text \<and> brace_match text = Some m \<and>
           JSON_parse w m = Inr d \<and> verdict_shape d"
proof -
  obtain r c' where body: "checkPolicy_body w summary pfp c = (r, c')"
    by (cases "checkPolicy_body w summary pfp c")
  with assms have "r = Inr d"
    by (cases r) (simp_all add: checkPolicy_def)
  with body have "checkPolicy_body w summary pfp c = (Inr d, c')" by simp
  from checkPolicy_body_Inr [OF this] show ?thesis
    by (simp add: validateResponse_iff)
qed

lemma checkPolicy_cases:
  "(\<exists>d. fst (checkPolicy w summary pfp c) = CheckOk d (now w)) \<or>
   (\<exists>e. fst (checkPolicy w summary pfp c) = CheckFailed e (now w))"
proof -
  obtain r c' where body: "checkPolicy_body w summary pfp c = (r, c')"
    by (cases "checkPolicy_body w summary pfp c")
  then show ?thesis
    by (cases r) (simp_all add: checkPolicy_def)
qed

text \<open>
  Claim C8. For every parsed verdict object \<open>v\<close> (the model answered \<open>text\<close>, the brace
  match \<open>m\<close> of the text parsed to \<open>v\<close>), \<^verbatim>\<open>checkPolicy\<close> succeeds only if \<open>violated\<close>
  is a boolean, \<open>violations\<close> is an array and every element of it carries a truthy
  category and description and a severity among high, medium and low; on any other
  shape \<^verbatim>\<open>checkPolicy\<close> returns a failure object.
\<close>

theorem checkPolicy_succeeds_only_on_shape:
  assumes "gemini_generate w = Inr text" and "brace_match text = Some m"
    and "JSON_parse w m = Inr v"
  shows "(success (fst (checkPolicy w summary policyFilePath c)) \<longrightarrow> verdict_shape v) \<and>
         (\<not> verdict_shape v \<longrightarrow>
            (\<exists>e. fst (checkPolicy w summary policyFilePath c) = CheckFailed e (now w)))"
proof -
  let ?r = "fst (checkPolicy w summary policyFilePath c)"
  have only_if: "verdict_shape v" if "success ?r"
  proof -
    from that obtain d ts where "?r = CheckOk d ts" by (cases ?r) simp_all
    from checkPolicy_CheckOk [OF this] assms show ?thesis by auto
  qed
  have "\<exists>e. ?r = CheckFailed e (now w)" if "\<not> verdict_shape v"
  proof -
    from that only_if have "\<not> success ?r" by blast
    with checkPolicy_cases [of w summary policyFilePath c] show ?thesis by auto
  qed
  with only_if show ?thesis by blast
qed

theorem checkPolicy_succeeds_only_on_shape_witness:
  "success (fst (checkPolicy (policy_world true_without_violations) ad_summary None loaded_checker)) \<and>
   verdict_shape (JObj [(''violated'', JBool True), (''violations'', JArr [] []),
                        (''reasoning'', JStr ''risky'')]) \<and>
   \<not> verdict_shape (JObj [(''violated'', JBool True),
                        (''violations'', JArr [JObj [(''category'', JStr ''Alcohol''),
                                                    (''description'', JStr ''Shows beer''),
                                                    (''severity'', JStr ''critical'')]] []),
                        (''reasoning'', JStr ''r'')]) \<and>
   fst (checkPolicy (policy_world bad_severity) ad_summary None loaded_checker) =
     CheckFailed ''Invalid severity level in violation at index 0'' ''2024-01-15T10:30:00.000Z''"
proof -
  let ?v1 = "JObj [(''violated'', JBool True), (''violations'', JArr [] []),
                   (''reasoning'', JStr ''risky'')]"
  let ?v2 = "JObj [(''violated'', JBool True),
                   (''violations'', JArr [JObj [(''category'', JStr ''Alcohol''),
                                               (''description'', JStr ''Shows beer''),
                                               (''severity'', JStr ''critical'')]] []),
                   (''reasoning'', JStr ''r'')]"
  have g1: "gemini_generate (policy_world true_without_violations) = Inr true_without_violations"
    by (simp add: policy_world_def)
  have m1: "brace_match true_without_violations = Some true_without_violations"
    by code_simp
  have p1: "JSON_parse (policy_world true_without_violations) true_without_violations = Inr ?v1"
    by code_simp
  have s1: "success (fst (checkPolicy (policy_world true_without_violations) ad_summary None loaded_checker))"
    by code_simp
  have g2: "gemini_generate (policy_world bad_severity) = Inr bad_severity"
    by (simp add: policy_world_def)
  have m2: "brace_match bad_severity = Some bad_severity"
    by code_simp
  have p2: "JSON_parse (policy_world bad_severity) bad_severity = Inr ?v2"
    by code_simp
  have n2: "\<not> verdict_shape ?v2"
    by code_simp
  have f2: "fst (checkPolicy (policy_world bad_severity) ad_summary None loaded_checker) =
     CheckFailed ''Invalid severity level in violation at index 0'' ''2024-01-15T10:30:00.000Z''"
    by code_simp
  from checkPolicy_succeeds_only_on_shape [OF g1 m1 p1, of ad_summary None loaded_checker] s1
  have "verdict_shape ?v1" by blast
  moreover from checkPolicy_succeeds_only_on_shape [OF g2 m2 p2, of ad_summary None loaded_checker] n2
  have "\<exists>e. fst (checkPolicy (policy_world bad_severity) ad_summary None loaded_checker) =
          CheckFailed e (now (policy_world bad_severity))" by blast
  ultimately show ?thesis using s1 n2 f2 by blast
qed

section \<open>Verdicts are returned as parsed; unparseable responses fail\<close>

text \<open>
  Claim C1 says that an accepted verdict never has \<open>violated = false\<close> with a non-empty
  \<open>violations\<close> array, nor \<open>violated = true\<close> with an empty one. \<^verbatim>\<open>validateResponse\<close>
  checks the two fields separately and never compares them: both combinations are
  accepted and returned.
\<close>
theorem checkPolicy_inconsistent_verdict:
  "fst (checkPolicy (policy_world false_with_violations) ad_summary None loaded_checker) =
     CheckOk (JObj [(''violated'', JBool False),
                    (''violations'', JArr [violation_entry] []),
                    (''reasoning'', JStr ''none'')]) ''2024-01-15T10:30:00.000Z'' \<and>
   \<not> verdict_consistent (JObj [(''violated'', JBool False),
                                (''violations'', JArr [violation_entry] []),
                                (''reasoning'', JStr ''none'')]) \<and>
   fst (checkPolicy (policy_world true_without_violations) ad_summary None loaded_checker) =
     CheckOk (JObj [(''violated'', JBool True),
                    (''violations'', JArr [] []),
                    (''reasoning'', JStr ''risky'')]) ''2024-01-15T10:30:00.000Z'' \<and>
   \<not> verdict_consistent (JObj [(''violated'', JBool True),
                                (''violations'', JArr [] []),
                                (''reasoning'', JStr ''risky'')])"
  by code_simp

text \<open>
  Claim C1, as amended. The verdict of an accepted response is the object parsed from
  the response, unchanged: it has the verdict shape, and \<open>violated\<close> agrees with the
  emptiness of \<open>violations\<close> exactly when it does in the model's JSON.
\<close>
theorem checkPolicy_returns_parsed_verdict:
  assumes "gemini_generate w = Inr text" and "brace_match text = Some m"
    and "JSON_parse w m = Inr v"
    and "fst (checkPolicy w summary policyFilePath c) = CheckOk d ts"
  shows "d = v \<and> verdict_shape d \<and> (verdict_consistent d \<longleftrightarrow> verdict_consistent v)"
proof -
  from checkPolicy_CheckOk [OF assms(4)] assms(1-3) have "d = v" and "verdict_shape d"
    by auto
  then show ?thesis by simp
qed

theorem checkPolicy_returns_parsed_verdict_witness:
  "verdict_shape (JObj [(''violated'', JBool False),
                        (''violations'', JArr [violation_entry] []),
                        (''reasoning'', JStr ''none'')]) \<and>
   \<not> verdict_consistent (JObj [(''violated'', JBool False),
                                (''violations'', JArr [violation_entry] []),
                                (''reasoning'', JStr ''none'')])"
proof -
  let ?v = "JObj [(''violated'', JBool False),
                  (''violations'', JArr [violation_entry] []),
                  (''reasoning'', JStr ''none'')]"
  have g: "gemini_generate (policy_world false_with_violations) = Inr false_with_violations"
    by (simp add: policy_world_def)
  have m: "brace_match false_with_violations = Some false_with_violations"
    by code_simp
  have p: "JSON_parse (policy_world false_with_violations) false_with_violations = Inr ?v"
    by code_simp
  have r: "fst (checkPolicy (policy_world false_with_violations) ad_summary None loaded_checker) =
             CheckOk ?v ''2024-01-15T10:30:00.000Z''"
    by code_simp
  have n: "\<not> verdict_consistent ?v"
    by code_simp
  from checkPolicy_returns_parsed_verdict [OF g m p r] n show ?thesis by simp
qed

lemma delim_match_sublist:
  assumes "delim_match l r text = Some m"
  shows "sublist m text"
proof -
  let ?s = "dropWhile (\<lambda>c. c \<noteq> l) text"
  from assms obtain c rest where s: "?s = c # rest"
    by (cases ?s) (simp_all add: delim_match_def)
  let ?inner = "rev (dropWhile (\<lambda>c. c \<noteq> r) (rev rest))"
  from assms s have m: "m = c # ?inner"
    by (cases ?inner) (simp_all add: delim_match_def)
  have rest: "rest = ?inner @ rev (takeWhile (\<lambda>c. c \<noteq> r) (rev rest))"
    by (metis rev_append rev_rev_ident takeWhile_dropWhile_id)
  have "text = takeWhile (\<lambda>c. c \<noteq> l) text @ ?s" by simp
  with s have "text = takeWhile (\<lambda>c. c \<noteq> l) text @ c # rest" by simp
  with rest have "text = takeWhile (\<lambda>c. c \<noteq> l) text @ (c # ?inner) @ rev (takeWhile (\<lambda>c. c \<noteq> r) (rev rest))"
    by simp
  with m show ?thesis
    unfolding sublist_def by blast
qed

lemma parse_compliance_unparseable:
  assumes "\<forall>s. sublist s text \<longrightarrow> isl (JSON_parse w s)"
  shows "isl (parse_compliance w text)"
proof -
  from assms have direct: "isl (JSON_parse w text)" by simp
  show ?thesis
  proof (cases "brace_match text")
    case None
    with direct show ?thesis
      by (auto simp: parse_compliance_def split: sum.splits)
  next
    case (Some m)
    then have "sublist m text"
      unfolding brace_match_def by (rule delim_match_sublist)
    with assms have "isl (JSON_parse w m)" by simp
    with direct Some show ?thesis
      by (auto simp: parse_compliance_def split: sum.splits)
  qed
qed

lemma checkCompliance_body_unparseable:
  assumes "claude_check w = Inr text" and "isl (parse_compliance w text)"
  shows "isl (fst (checkCompliance_body w adSummary c))"
  using assms
  by (cases adSummary)
     (auto simp: checkCompliance_body_def split: prod.splits sum.splits)

lemma checkCompliance_isl:
  "isl (fst (checkCompliance_body w adSummary c)) \<Longrightarrow> isl (fst (checkCompliance w adSummary c))"
  by (auto simp: checkCompliance_def split: prod.splits sum.splits)

text \<open>
  Claim C4. When no substring of the response text parses as JSON, the compliance
  evaluation fails: \<^verbatim>\<open>checkPolicy\<close> returns a failure object with an error message and
  \<^verbatim>\<open>checkCompliance\<close> throws; no verdict is made up.
\<close>
theorem unparseable_response_fails:
  assumes "\<forall>s. sublist s text \<longrightarrow> isl (JSON_parse w s)"
  shows "(gemini_generate w = Inr text \<longrightarrow>
            (\<exists>e. fst (checkPolicy w summary policyFilePath c) = CheckFailed e (now w))) \<and>
         (claude_check w = Inr text \<longrightarrow> isl (fst (checkCompliance w adSummary dc)))"
proof (intro conjI impI)
  assume g: "gemini_generate w = Inr text"
  have "fst (checkPolicy w summary policyFilePath c) \<noteq> CheckOk d ts" for d ts
  proof
    assume "fst (checkPolicy w summary policyFilePath c) = CheckOk d ts"
    from checkPolicy_CheckOk [OF this] g obtain m
      where m: "brace_match text = Some m" and p: "JSON_parse w m = Inr d"
      by auto
    from m have "sublist m text"
      unfolding brace_match_def by (rule delim_match_sublist)
    with assms have "isl (JSON_parse w m)" by simp
    with p show False by simp
  qed
  with checkPolicy_cases [of w summary policyFilePath c]
  show "\<exists>e. fst (checkPolicy w summary policyFilePath c) = CheckFailed e (now w)"
    by auto
next
  assume "claude_check w = Inr text"
  with parse_compliance_unparseable [OF assms]
  show "isl (fst (checkCompliance w adSummary dc))"
    by (intro checkCompliance_isl checkCompliance_body_unparseable)
qed

theorem unparseable_response_fails_witness:
  "fst (checkPolicy refusing_world ad_summary None loaded_checker) =
     CheckFailed ''Failed to parse AI response as JSON: No valid JSON found in response''
       ''2024-01-15T10:30:00.000Z'' \<and>
   fst (checkCompliance refusing_world ad_summary cached_checker) =
     Inl (Error ''Failed to check compliance: Failed to parse compliance result JSON from Claude response'')"
proof -
  have "list_all (\<lambda>s. isl (json_parse s)) (sublists refusal)"
    by code_simp
  then have h: "\<forall>s. sublist s refusal \<longrightarrow> isl (JSON_parse refusing_world s)"
    by (simp add: list_all_iff refusing_world_def policy_world_def silent_world_def)
  have g: "gemini_generate refusing_world = Inr refusal"
    by (simp add: refusing_world_def policy_world_def)
  have k: "claude_check refusing_world = Inr refusal"
    by (simp add: refusing_world_def)
  have r1: "fst (checkPolicy refusing_world ad_summary None loaded_checker) =
     CheckFailed ''Failed to parse AI response as JSON: No valid JSON found in response''
       ''2024-01-15T10:30:00.000Z''"
    by code_simp
  have r2: "fst (checkCompliance refusing_world ad_summary cached_checker) =
     Inl (Error ''Failed to check compliance: Failed to parse compliance result JSON from Claude response'')"
    by code_simp
  from unparseable_response_fails [OF h, of ad_summary None loaded_checker ad_summary cached_checker]
    g k r1 r2
  show ?thesis by simp
qed

section \<open>The summarizer: degrading to raw text, and the file metadata\<close>

lemma own_upd_same: "own (upd kvs k x) k = x"
  by (induction kvs) (auto simp: own_def)

lemma own_upd_other: "k' \<noteq> k \<Longrightarrow> own (upd kvs k x) k' = own kvs k'"
  by (induction kvs) (auto simp: own_def)

lemma set_prop_field_same: "set_prop v k x = Inr d \<Longrightarrow> field d k = x"
  by (cases v) (auto simp: field_def own_upd_same)

lemma set_prop_field_other: "set_prop v k x = Inr d \<Longrightarrow> k' \<noteq> k \<Longrightarrow> field d k' = field v k'"
  by (cases v) (auto simp: field_def own_upd_other)

lemma set_prop_object: "is_object v \<Longrightarrow> \<exists>d. set_prop v k x = Inr d"
  by (cases v) simp_all

lemma analyzeMultimedia_AnalysisOk:
  assumes "analyzeMultimedia w filePath prompt = AnalysisOk d"
  shows "\<exists>mimeType fileSize mediaType text.
           validateMultimediaFile w filePath = Valid mimeType fileSize mediaType \<and>
           gemini_generate w = Inr text \<and>
           set_prop (parse_analysis w text) ''fileMetadata''
             (fileMetadata w filePath fileSize mimeType mediaType) = Inr d"
  using assms
  by (auto simp: analyzeMultimedia_def analyzeMultimedia_body_def
           split: sum.splits option.splits file_validation.splits)

lemma analyzeMultimedia_reaches_parse:
  assumes "sm_validateInput filePath prompt = None"
    and "validateMultimediaFile w filePath = Valid mimeType fileSize mediaType"
    and "fileToBase64 w filePath = Inr base64Data"
    and "gemini_generate w = Inr text"
    and "set_prop (parse_analysis w text) ''fileMetadata''
           (fileMetadata w filePath fileSize mimeType mediaType) = Inr d"
  shows "analyzeMultimedia w filePath prompt = AnalysisOk d"
  using assms by (simp add: analyzeMultimedia_def analyzeMultimedia_body_def)

text \<open>
  Claim C3. After a successful service call, a response text that cannot be parsed, neither
  directly nor through its brace match, does not make \<^verbatim>\<open>analyzeMultimedia\<close> fail: the
  result is a success whose summary is the trimmed raw text and whose key points are the
  single sentinel entry.
\<close>
theorem analyzeMultimedia_degrades_to_raw_text:
  assumes "sm_validateInput filePath prompt = None"
    and "validateMultimediaFile w filePath = Valid mimeType fileSize mediaType"
    and "fileToBase64 w filePath = Inr base64Data"
    and "gemini_generate w = Inr text"
    and "isl (JSON_parse w text)"
    and "case brace_match text of None \<Rightarrow> True | Some m \<Rightarrow> isl (JSON_parse w m)"
  shows "\<exists>d. analyzeMultimedia w filePath prompt = AnalysisOk d \<and>
             field d ''summary'' = JStr (trim text) \<and>
             field d ''keyPoints'' = JArr [JStr ''Raw analysis response provided''] []"
proof -
  from assms(5,6) have raw: "parse_analysis w text = raw_text_result text"
    by (auto simp: parse_analysis_def split: sum.splits option.splits)
  have "is_object (raw_text_result text)" by (simp add: raw_text_result_def)
  from set_prop_object [OF this] obtain d
    where d: "set_prop (raw_text_result text) ''fileMetadata''
                (fileMetadata w filePath fileSize mimeType mediaType) = Inr d"
    by blast
  with raw have "set_prop (parse_analysis w text) ''fileMetadata''
                   (fileMetadata w filePath fileSize mimeType mediaType) = Inr d"
    by simp
  with assms(1-4) have ok: "analyzeMultimedia w filePath prompt = AnalysisOk d"
    by (rule analyzeMultimedia_reaches_parse)
  have "field d ''summary'' = field (raw_text_result text) ''summary''"
    by (rule set_prop_field_other [OF d]) simp
  moreover have "field d ''keyPoints'' = field (raw_text_result text) ''keyPoints''"
    by (rule set_prop_field_other [OF d]) simp
  ultimately show ?thesis
    using ok by (simp add: raw_text_result_def field_def own_def)
qed

theorem analyzeMultimedia_degrades_to_raw_text_witness:
  "\<exists>d. analyzeMultimedia (media_world prose_response ''2024-01-15T10:30:00.000Z'') media_path media_prompt =
         AnalysisOk d \<and>
       field d ''summary'' = JStr ''The clip {no audio} shows a cat.'' \<and>
       field d ''keyPoints'' = JArr [JStr ''Raw analysis response provided''] []"
proof -
  let ?w = "media_world prose_response ''2024-01-15T10:30:00.000Z''"
  have a1: "sm_validateInput media_path media_prompt = None" by code_simp
  have a2: "validateMultimediaFile ?w media_path = Valid ''video/mp4'' 2048 ''video''"
    by (simp add: validateMultimediaFile_def media_world_def media_path_def maxFileSize_def
                  supportedFormats_def supportedVideoFormats_def supportedImageFormats_def)
  have a3: "fileToBase64 ?w media_path = Inr ''AAAAIGZ0eXBpc29t''" by code_simp
  have a4: "gemini_generate ?w = Inr prose_response" by (simp add: media_world_def)
  have a5: "isl (JSON_parse ?w prose_response)" by code_simp
  have a6: "case brace_match prose_response of None \<Rightarrow> True | Some m \<Rightarrow> isl (JSON_parse ?w m)"
    by code_simp
  have t: "trim prose_response = ''The clip {no audio} shows a cat.''" by code_simp
  from analyzeMultimedia_degrades_to_raw_text [OF a1 a2 a3 a4 a5 a6] t show ?thesis by simp
qed

lemma validateMultimediaFile_response_independent:
  "validateMultimediaFile (w\<lparr>gemini_generate := g, now := t\<rparr>) filePath = validateMultimediaFile w filePath"
  by (auto simp: validateMultimediaFile_def split: sum.splits prod.splits option.splits)

lemma fileMetadata_field:
  "k \<in> {''fileName'', ''fileSize'', ''mimeType'', ''mediaType''} \<Longrightarrow>
   field (fileMetadata (w\<lparr>gemini_generate := g, now := t\<rparr>) filePath fileSize mimeType mediaType) k =
   field (JObj [(''fileName'', JStr (path_basename w filePath)),
                (''fileSize'', JNum (Finite (of_nat fileSize))),
                (''mimeType'', JStr mimeType),
                (''mediaType'', JStr mediaType)]) k"
  by (auto simp: fileMetadata_def field_def own_def)

text \<open>
  Claim C9. In two successful runs of \<^verbatim>\<open>analyzeMultimedia\<close> on the same path and file
  that differ only in the response text (and in the time of the analysis), the fields
  \<open>fileName\<close>, \<open>fileSize\<close>, \<open>mimeType\<close> and \<open>mediaType\<close> of \<open>fileMetadata\<close> are the
  same, and they are the base name of the path and what the validation of the file
  found.
\<close>
theorem fileMetadata_independent_of_response:
  assumes "analyzeMultimedia (w\<lparr>gemini_generate := Inr text1, now := t1\<rparr>) filePath prompt = AnalysisOk d1"
    and "analyzeMultimedia (w\<lparr>gemini_generate := Inr text2, now := t2\<rparr>) filePath prompt = AnalysisOk d2"
  shows "\<exists>mimeType fileSize mediaType.
           validateMultimediaFile w filePath = Valid mimeType fileSize mediaType \<and>
           (\<forall>k \<in> {''fileName'', ''fileSize'', ''mimeType'', ''mediaType''}.
              field (field d1 ''fileMetadata'') k = field (field d2 ''fileMetadata'') k \<and>
              field (field d1 ''fileMetadata'') k =
                field (JObj [(''fileName'', JStr (path_basename w filePath)),
                             (''fileSize'', JNum (Finite (of_nat fileSize))),
                             (''mimeType'', JStr mimeType),
                             (''mediaType'', JStr mediaType)]) k)"
proof -
  let ?w1 = "w\<lparr>gemini_generate := Inr text1, now := t1\<rparr>"
  let ?w2 = "w\<lparr>gemini_generate := Inr text2, now := t2\<rparr>"
  from analyzeMultimedia_AnalysisOk [OF assms(1)] obtain mt1 sz1 md1 x1
    where v1: "validateMultimediaFile ?w1 filePath = Valid mt1 sz1 md1"
      and s1: "set_prop (parse_analysis ?w1 x1) ''fileMetadata'' (fileMetadata ?w1 filePath sz1 mt1 md1) = Inr d1"
    by blast
  from analyzeMultimedia_AnalysisOk [OF assms(2)] obtain mt2 sz2 md2 x2
    where v2: "validateMultimediaFile ?w2 filePath = Valid mt2 sz2 md2"
      and s2: "set_prop (parse_analysis ?w2 x2) ''fileMetadata'' (fileMetadata ?w2 filePath sz2 mt2 md2) = Inr d2"
    by blast
  from v1 have v: "validateMultimediaFile w filePath = Valid mt1 sz1 md1"
    by (simp only: validateMultimediaFile_response_independent)
  from v2 have "validateMultimediaFile w filePath = Valid mt2 sz2 md2"
    by (simp only: validateMultimediaFile_response_independent)
  with v have same: "mt2 = mt1" "sz2 = sz1" "md2 = md1" by simp_all
  have f1: "field d1 ''fileMetadata'' = fileMetadata ?w1 filePath sz1 mt1 md1"
    by (rule set_prop_field_same [OF s1])
  have f2: "field d2 ''fileMetadata'' = fileMetadata ?w2 filePath sz1 mt1 md1"
    using set_prop_field_same [OF s2] same by simp
  let ?K = "{''fileName'', ''fileSize'', ''mimeType'', ''mediaType''}"
  let ?m = "JObj [(''fileName'', JStr (path_basename w filePath)),
                  (''fileSize'', JNum (Finite (of_nat sz1))),
                  (''mimeType'', JStr mt1),
                  (''mediaType'', JStr md1)]"
  have k1: "\<forall>k \<in> ?K. field (field d1 ''fileMetadata'') k = field ?m k"
    unfolding f1 using fileMetadata_field by blast
  have k2: "\<forall>k \<in> ?K. field (field d2 ''fileMetadata'') k = field ?m k"
    unfolding f2 using fileMetadata_field by blast
  from k1 k2 have "\<forall>k \<in> ?K. field (field d1 ''fileMetadata'') k = field (field d2 ''fileMetadata'') k \<and>
                     field (field d1 ''fileMetadata'') k = field ?m k"
    by simp
  with v show ?thesis by blast
qed

theorem fileMetadata_independent_of_response_witness:
  "\<exists>d1 d2.
     analyzeMultimedia (media_world forged_metadata_response ''2024-01-15T10:30:00.000Z'')
       media_path media_prompt = AnalysisOk d1 \<and>
     analyzeMultimedia (media_world prose_response ''2024-01-15T10:31:00.000Z'')
       media_path media_prompt = AnalysisOk d2 \<and>
     field d1 ''summary'' \<noteq> field d2 ''summary'' \<and>
     (\<forall>k \<in> {''fileName'', ''fileSize'', ''mimeType'', ''mediaType''}.
        field (field d1 ''fileMetadata'') k = field (field d2 ''fileMetadata'') k) \<and>
     field (field d1 ''fileMetadata'') ''fileName'' = JStr ''file-1700000000000-123456789.mp4'' \<and>
     field (field d1 ''fileMetadata'') ''mimeType'' = JStr ''video/mp4''"
proof -
  let ?w = "media_world [] []"
  let ?w1 = "?w\<lparr>gemini_generate := Inr forged_metadata_response, now := ''2024-01-15T10:30:00.000Z''\<rparr>"
  let ?w2 = "?w\<lparr>gemini_generate := Inr prose_response, now := ''2024-01-15T10:31:00.000Z''\<rparr>"
  have w1: "media_world forged_metadata_response ''2024-01-15T10:30:00.000Z'' = ?w1"
    by (simp add: media_world_def)
  have w2: "media_world prose_response ''2024-01-15T10:31:00.000Z'' = ?w2"
    by (simp add: media_world_def)
  have a1: "sm_validateInput media_path media_prompt = None" by code_simp
  have v: "validateMultimediaFile ?w media_path = Valid ''video/mp4'' 2048 ''video''"
    by (simp add: validateMultimediaFile_def media_world_def media_path_def maxFileSize_def
                  supportedFormats_def supportedVideoFormats_def supportedImageFormats_def)
  then have v1: "validateMultimediaFile ?w1 media_path = Valid ''video/mp4'' 2048 ''video''"
    and v2: "validateMultimediaFile ?w2 media_path = Valid ''video/mp4'' 2048 ''video''"
    by (simp_all only: validateMultimediaFile_response_independent)
  have b1: "fileToBase64 ?w1 media_path = Inr ''AAAAIGZ0eXBpc29t''"
    and b2: "fileToBase64 ?w2 media_path = Inr ''AAAAIGZ0eXBpc29t''"
    by (simp_all add: fileToBase64_def media_world_def)
  have g1: "gemini_generate ?w1 = Inr forged_metadata_response"
    and g2: "gemini_generate ?w2 = Inr prose_response"
    by simp_all
  have p1: "parse_analysis (media_world forged_metadata_response ''2024-01-15T10:30:00.000Z'')
              forged_metadata_response =
            JObj [(''summary'', JStr ''A cat.''), (''keyPoints'', JArr [JStr ''cat''] []),
                  (''fileMetadata'',
                   JObj [(''fileName'', JStr ''other.exe''), (''fileSize'', JNum (Finite 1)),
                         (''mimeType'', JStr ''text/plain''), (''mediaType'', JStr ''image'')])]"
    by code_simp
  have p2: "parse_analysis (media_world prose_response ''2024-01-15T10:31:00.000Z'') prose_response =
            raw_text_result prose_response"
    by code_simp
  have t: "trim prose_response = ''The clip {no audio} shows a cat.''" by code_simp
  obtain d1 where s1: "set_prop (parse_analysis ?w1 forged_metadata_response) ''fileMetadata''
                         (fileMetadata ?w1 media_path 2048 ''video/mp4'' ''video'') = Inr d1"
    using set_prop_object [of "parse_analysis ?w1 forged_metadata_response"] p1 [unfolded w1]
    by auto
  obtain d2 where s2: "set_prop (parse_analysis ?w2 prose_response) ''fileMetadata''
                         (fileMetadata ?w2 media_path 2048 ''video/mp4'' ''video'') = Inr d2"
    using set_prop_object [of "parse_analysis ?w2 prose_response"] p2 [unfolded w2]
    by (auto simp: raw_text_result_def)
  have r1: "analyzeMultimedia ?w1 media_path media_prompt = AnalysisOk d1"
    using a1 v1 b1 g1 s1 by (rule analyzeMultimedia_reaches_parse)
  have r2: "analyzeMultimedia ?w2 media_path media_prompt = AnalysisOk d2"
    using a1 v2 b2 g2 s2 by (rule analyzeMultimedia_reaches_parse)
  have "field d1 ''summary'' = JStr ''A cat.''"
    using set_prop_field_other [OF s1, of "''summary''"] p1 [unfolded w1]
    by (simp add: field_def own_def)
  moreover have "field d2 ''summary'' = JStr ''The clip {no audio} shows a cat.''"
    using set_prop_field_other [OF s2, of "''summary''"] p2 [unfolded w2] t
    by (simp add: field_def own_def raw_text_result_def)
  ultimately have diff: "field d1 ''summary'' \<noteq> field d2 ''summary''" by simp
  have base: "path_basename ?w media_path = ''file-1700000000000-123456789.mp4''"
    by code_simp
  from fileMetadata_independent_of_response [OF r1 r2] v base
  have "(\<forall>k \<in> {''fileName'', ''fileSize'', ''mimeType'', ''mediaType''}.
           field (field d1 ''fileMetadata'') k = field (field d2 ''fileMetadata'') k) \<and>
        field (field d1 ''fileMetadata'') ''fileName'' = JStr ''file-1700000000000-123456789.mp4'' \<and>
        field (field d1 ''fileMetadata'') ''mimeType'' = JStr ''video/mp4''"
    by (auto simp: field_def own_def)
  with r1 r2 diff show ?thesis
    unfolding w1 w2 by blast
qed

section \<open>Round trip of a well-formed JSON response\<close>

lemma json_ws_not_brace: "json_ws c \<Longrightarrow> c \<noteq> CHR ''{'' \<and> c \<noteq> CHR ''}''"
  by (auto simp: json_ws_def)

lemma brace_match_json_strip:
  assumes ne: "json_strip text \<noteq> []"
    and h: "hd (json_strip text) = CHR ''{''"
    and l: "last (json_strip text) = CHR ''}''"
  shows "brace_match text = Some (json_strip text)"
proof -
  let ?a = "takeWhile json_ws text"
  let ?b = "dropWhile json_ws text"
  let ?z = "rev (takeWhile json_ws (rev ?b))"
  let ?core = "json_strip text"
  have b: "?b = ?core @ ?z"
    unfolding json_strip_def by (metis rev_append rev_rev_ident takeWhile_dropWhile_id)
  from ne h obtain rest where core: "?core = CHR ''{'' # rest"
    by (cases ?core) simp_all
  have a_ws: "\<forall>c \<in> set ?a. c \<noteq> CHR ''{''"
    using json_ws_not_brace by (auto dest: set_takeWhileD)
  have z_ws: "\<forall>c \<in> set (takeWhile json_ws (rev ?b)). c \<noteq> CHR ''}''"
    using json_ws_not_brace by (auto dest: set_takeWhileD)
  have "text = ?a @ ?b" by simp
  then have decomp: "text = ?a @ CHR ''{'' # rest @ ?z"
    using b core by simp
  have "dropWhile (\<lambda>c. c \<noteq> CHR ''{'') (?a @ CHR ''{'' # rest @ ?z) = CHR ''{'' # rest @ ?z"
    using a_ws by (simp add: dropWhile_append3)
  with decomp have d1: "dropWhile (\<lambda>c. c \<noteq> CHR ''{'') text = CHR ''{'' # rest @ ?z"
    by simp
  from l core have rest_ne: "rest \<noteq> []" by (cases rest) simp_all
  with l core have "last rest = CHR ''}''" by simp
  with rest_ne obtain pre where rest: "rest = pre @ [CHR ''}'']"
    by (metis append_butlast_last_id)
  have "dropWhile (\<lambda>c. c \<noteq> CHR ''}'') (takeWhile json_ws (rev ?b) @ rev rest) = rev rest"
    using z_ws rest by (simp add: dropWhile_append3)
  then have d2: "rev (dropWhile (\<lambda>c. c \<noteq> CHR ''}'') (rev (rest @ ?z))) = rest"
    by simp
  have "delim_match (CHR ''{'') (CHR ''}'') text =
          (case rest of [] \<Rightarrow> None | inner \<Rightarrow> Some (CHR ''{'' # inner))"
    by (simp only: delim_match_def d1 list.case d2)
  with rest_ne core show ?thesis
    by (cases rest) (simp_all add: brace_match_def)
qed

lemma checkPolicy_accepts:
  assumes "validateInput summary = Inr ()"
    and "policyContent c = Some content" and "content \<noteq> []"
    and "gemini_generate w = Inr text"
    and "brace_match text = Some m" and "JSON_parse w m = Inr v"
    and "verdict_shape v"
  shows "fst (checkPolicy w summary None c) = CheckOk v (now w)"
proof -
  from assms(7) have "validateResponse v = Inr ()"
    by (simp add: validateResponse_iff)
  with assms(1-6) show ?thesis
    by (simp add: checkPolicy_def checkPolicy_body_def parse_response_def)
qed

text \<open>
  Claim C5. When the whole response text is one well-formed JSON object \<open>obj\<close>, the
  summarizer returns the \<open>summary\<close> and \<open>keyPoints\<close> of \<open>obj\<close> as they are, and, when
  \<open>obj\<close> has the shape of a verdict, \<^verbatim>\<open>checkPolicy\<close> returns \<open>obj\<close> itself (so its
  \<open>violated\<close>, \<open>violations\<close> and \<open>reasoning\<close>), provided the steps before the model
  call pass.
\<close>
theorem object_response_round_trip:
  assumes "object_text w text obj" and "gemini_generate w = Inr text"
  shows "(sm_validateInput filePath prompt = None \<and>
          validateMultimediaFile w filePath = Valid mimeType fileSize mediaType \<and>
          fileToBase64 w filePath = Inr base64Data \<longrightarrow>
            (\<exists>d. analyzeMultimedia w filePath prompt = AnalysisOk d \<and>
                 field d ''summary'' = field obj ''summary'' \<and>
                 field d ''keyPoints'' = field obj ''keyPoints'')) \<and>
         (validateInput summary = Inr () \<and> policyContent c = Some content \<and> content \<noteq> [] \<and>
          verdict_shape obj \<longrightarrow>
            fst (checkPolicy w summary None c) = CheckOk obj (now w))"
proof (intro conjI impI)
  assume a: "sm_validateInput filePath prompt = None \<and>
             validateMultimediaFile w filePath = Valid mimeType fileSize mediaType \<and>
             fileToBase64 w filePath = Inr base64Data"
  from assms(1) have p: "parse_analysis w text = obj" and o: "is_object obj"
    by (auto simp: object_text_def parse_analysis_def split: jsval.splits)
  from set_prop_object [OF o] obtain d
    where "set_prop obj ''fileMetadata'' (fileMetadata w filePath fileSize mimeType mediaType) = Inr d"
    by blast
  with p have d: "set_prop (parse_analysis w text) ''fileMetadata''
                    (fileMetadata w filePath fileSize mimeType mediaType) = Inr d"
    by simp
  from a assms(2) d have "analyzeMultimedia w filePath prompt = AnalysisOk d"
    by (intro analyzeMultimedia_reaches_parse) simp_all
  moreover have "field d ''summary'' = field obj ''summary''"
    using set_prop_field_other [OF d, of "''summary''"] p by simp
  moreover have "field d ''keyPoints'' = field obj ''keyPoints''"
    using set_prop_field_other [OF d, of "''keyPoints''"] p by simp
  ultimately show "\<exists>d. analyzeMultimedia w filePath prompt = AnalysisOk d \<and>
                     field d ''summary'' = field obj ''summary'' \<and>
                     field d ''keyPoints'' = field obj ''keyPoints''"
    by blast
next
  assume b: "validateInput summary = Inr () \<and> policyContent c = Some content \<and> content \<noteq> [] \<and>
             verdict_shape obj"
  from assms(1) have "brace_match text = Some (json_strip text)"
    by (intro brace_match_json_strip) (simp_all add: object_text_def)
  moreover from assms(1) have "JSON_parse w (json_strip text) = Inr obj"
    by (simp add: object_text_def)
  ultimately show "fst (checkPolicy w summary None c) = CheckOk obj (now w)"
    using b assms(2) checkPolicy_accepts by blast
qed

theorem object_response_round_trip_witness:
  "(\<exists>d. analyzeMultimedia (media_world summary_response ''2024-01-15T10:30:00.000Z'')
           media_path media_prompt = AnalysisOk d \<and>
        field d ''summary'' = JStr ''A cat plays.'' \<and>
        field d ''keyPoints'' = JArr [JStr ''cat'', JStr ''toy''] []) \<and>
   fst (checkPolicy (policy_world verdict_response) ad_summary None loaded_checker) =
     CheckOk (JObj [(''violated'', JBool True),
                    (''violations'', JArr [violation_entry] []),
                    (''reasoning'', JStr ''Promises returns.'')])
       ''2024-01-15T10:30:00.000Z''"
proof -
  let ?w = "media_world summary_response ''2024-01-15T10:30:00.000Z''"
  let ?s = "JObj [(''summary'', JStr ''A cat plays.''),
                  (''keyPoints'', JArr [JStr ''cat'', JStr ''toy''] [])]"
  let ?p = "policy_world verdict_response"
  let ?v = "JObj [(''violated'', JBool True),
                  (''violations'', JArr [violation_entry] []),
                  (''reasoning'', JStr ''Promises returns.'')]"
  have o1: "object_text ?w summary_response ?s" by code_simp
  have g1: "gemini_generate ?w = Inr summary_response" by (simp add: media_world_def)
  have a1: "sm_validateInput media_path media_prompt = None" by code_simp
  have a2: "validateMultimediaFile ?w media_path = Valid ''video/mp4'' 2048 ''video''"
    by (simp add: validateMultimediaFile_def media_world_def media_path_def maxFileSize_def
                  supportedFormats_def supportedVideoFormats_def supportedImageFormats_def)
  have a3: "fileToBase64 ?w media_path = Inr ''AAAAIGZ0eXBpc29t''" by code_simp
  have o2: "object_text ?p verdict_response ?v" by code_simp
  have g2: "gemini_generate ?p = Inr verdict_response" by (simp add: policy_world_def)
  have b1: "validateInput ad_summary = Inr ()" by code_simp
  have b2: "policyContent loaded_checker = Some policy_text" by (simp add: loaded_checker_def)
  have b3: "policy_text \<noteq> []" by (simp add: policy_text_def)
  have b4: "verdict_shape ?v" by code_simp
  have n: "now ?p = ''2024-01-15T10:30:00.000Z''" by (simp add: policy_world_def silent_world_def)
  from object_response_round_trip [OF o1 g1] a1 a2 a3
  have "\<exists>d. analyzeMultimedia ?w media_path media_prompt = AnalysisOk d \<and>
            field d ''summary'' = field ?s ''summary'' \<and>
            field d ''keyPoints'' = field ?s ''keyPoints''"
    by blast
  moreover from object_response_round_trip [OF o2 g2] b1 b2 b3 b4
  have "fst (checkPolicy ?p ad_summary None loaded_checker) = CheckOk ?v (now ?p)"
    by blast
  ultimately show ?thesis
    using n by (simp add: field_def own_def)
qed

section \<open>The live-fetch checker: errors absorbed, policies cached\<close>

lemma get_prop_field: "v \<noteq> JNull \<Longrightarrow> v \<noteq> JUndefined \<Longrightarrow> get_prop v k = Inr (field v k)"
  by (cases v) (simp_all add: field_def)

lemma field_null: "field JNull k = JUndefined" "field JUndefined k = JUndefined"
  by (simp_all add: field_def)

lemma error_object_fields:
  "field (error_object e) ''compliant'' = JBool False"
  "field (error_object e) ''violatedPolicies'' = JArr [] []"
  "field (field (error_object e) ''details'') ''error'' = JStr (message e)"
  by (simp_all add: error_object_def field_def own_def)

lemma compliance_object_cases:
  "(\<exists>e. (result = JNull \<or> result = JUndefined) \<and> compliance_object result = Inl e) \<or>
   (result \<noteq> JNull \<and> result \<noteq> JUndefined \<and>
    compliance_object result =
      Inr (JObj [(''compliant'', js_or (field result ''compliant'') (JBool False)),
                 (''violatedPolicies'', js_or (field result ''violatedPolicies'') (JArr [] [])),
                 (''details'', js_or (field result ''details'') (JObj []))]))"
proof (cases "result = JNull \<or> result = JUndefined")
  case True
  then show ?thesis by (auto simp: compliance_object_def)
next
  case False
  then show ?thesis by (simp add: compliance_object_def get_prop_field)
qed

lemma checkAdCompliance_fst:
  "fst (checkAdCompliance w adSummary c) =
     (case fst (checkCompliance w adSummary c) of
        Inl e \<Rightarrow> Inr (error_object e)
      | Inr result \<Rightarrow>
          (case compliance_object result of Inl e \<Rightarrow> Inr (error_object e) | Inr obj \<Rightarrow> Inr obj))"
  by (auto simp: checkAdCompliance_def split: prod.splits sum.splits)

text \<open>
  What makes \<^verbatim>\<open>checkCompliance\<close> throw: a summary that is not a non-empty string, a
  failed fetch or extraction on an uncached checker, a failed compliance call, a
  response that cannot be parsed.
\<close>

lemma getPolicies_throws:
  assumes "\<not> truthy (cachedPolicies c)"
    and "isl (http_get w) \<or>
         (\<exists>htmlContent. http_get w = Inr htmlContent \<and>
            isl (extractPolicies_body w (extractTextFromHtml w htmlContent)))"
  shows "isl (fst (getPolicies w c))"
  using assms
  by (auto simp: getPolicies_def fetchMetaPolicies_def extractPoliciesWithClaude_def
           split: sum.splits)

lemma checkCompliance_throws:
  assumes "(\<forall>s. adSummary = JStr s \<longrightarrow> s = []) \<or> isl (fst (getPolicies w c)) \<or>
           isl (claude_check w) \<or>
           (\<exists>responseText. claude_check w = Inr responseText \<and> isl (parse_compliance w responseText))"
  shows "isl (fst (checkCompliance w adSummary c))"
proof -
  have "isl (fst (checkCompliance_body w adSummary c))"
    using assms
    by (cases adSummary)
       (auto simp: checkCompliance_body_def split: prod.splits sum.splits)
  then show ?thesis by (rule checkCompliance_isl)
qed

text \<open>
  Claim C10. \<^verbatim>\<open>checkAdCompliance\<close> never rejects. When \<^verbatim>\<open>checkCompliance\<close> throws
  (invalid summary, failed fetch, failed extraction, unparseable verdict) it resolves
  to an object with \<open>compliant = false\<close>, \<open>violatedPolicies = []\<close> and the error message
  in \<open>details\<close>; when \<^verbatim>\<open>checkCompliance\<close> returns a result, \<open>compliant\<close> is \<open>false\<close> and
  \<open>violatedPolicies\<close> is \<open>[]\<close> where the result omits them, and they are the result's
  where they are truthy there.
\<close>
theorem checkAdCompliance_never_rejects:
  "\<exists>obj. fst (checkAdCompliance w adSummary c) = Inr obj \<and>
     (\<forall>e. fst (checkCompliance w adSummary c) = Inl e \<longrightarrow>
          field obj ''compliant'' = JBool False \<and>
          field obj ''violatedPolicies'' = JArr [] [] \<and>
          field (field obj ''details'') ''error'' = JStr (message e)) \<and>
     (\<forall>result. fst (checkCompliance w adSummary c) = Inr result \<longrightarrow>
          (field result ''compliant'' = JUndefined \<longrightarrow> field obj ''compliant'' = JBool False) \<and>
          (field result ''violatedPolicies'' = JUndefined \<longrightarrow>
             field obj ''violatedPolicies'' = JArr [] []) \<and>
          (truthy (field result ''compliant'') \<longrightarrow>
             field obj ''compliant'' = field result ''compliant'') \<and>
          (truthy (field result ''violatedPolicies'') \<longrightarrow>
             field obj ''violatedPolicies'' = field result ''violatedPolicies''))"
proof (cases "fst (checkCompliance w adSummary c)")
  case (Inl e)
  then have "fst (checkAdCompliance w adSummary c) = Inr (error_object e)"
    by (simp add: checkAdCompliance_fst)
  with Inl show ?thesis by (simp add: error_object_fields)
next
  case (Inr result)
  show ?thesis
  proof (cases "result = JNull \<or> result = JUndefined")
    case True
    with compliance_object_cases [of result] obtain e where "compliance_object result = Inl e"
      by auto
    with Inr have "fst (checkAdCompliance w adSummary c) = Inr (error_object e)"
      by (simp add: checkAdCompliance_fst)
    with Inr True show ?thesis by (auto simp: error_object_fields field_null)
  next
    case False
    let ?obj = "JObj [(''compliant'', js_or (field result ''compliant'') (JBool False)),
                      (''violatedPolicies'', js_or (field result ''violatedPolicies'') (JArr [] [])),
                      (''details'', js_or (field result ''details'') (JObj []))]"
    from False compliance_object_cases [of result] have "compliance_object result = Inr ?obj"
      by auto
    with Inr have "fst (checkAdCompliance w adSummary c) = Inr ?obj"
      by (simp add: checkAdCompliance_fst)
    with Inr show ?thesis by (simp add: field_def own_def js_or_def)
  qed
qed

theorem checkAdCompliance_never_rejects_witness:
  "fst (checkAdCompliance silent_world ad_summary new_dyn_checker) =
     Inr (JObj [(''compliant'', JBool False),
                (''violatedPolicies'', JArr [] []),
                (''details'',
                 JObj [(''error'', JStr ''Failed to check compliance: Failed to fetch Meta policies: timeout of 30000ms exceeded''),
                       (''description'', JStr ''An error occurred while checking compliance'')])]) \<and>
   fst (checkAdCompliance (live_world partial_compliance_response) ad_summary new_dyn_checker) =
     Inr (JObj [(''compliant'', JBool False),
                (''violatedPolicies'', JArr [] []),
                (''details'', JObj [(''riskLevel'', JStr ''low'')])])"
proof -
  let ?e = "Error ''Failed to check compliance: Failed to fetch Meta policies: timeout of 30000ms exceeded''"
  let ?r = "JObj [(''details'', JObj [(''riskLevel'', JStr ''low'')])]"
  have c1: "fst (checkCompliance silent_world ad_summary new_dyn_checker) = Inl ?e"
    by code_simp
  have c2: "fst (checkCompliance (live_world partial_compliance_response) ad_summary new_dyn_checker) = Inr ?r"
    by code_simp
  have r1: "fst (checkAdCompliance silent_world ad_summary new_dyn_checker) =
     Inr (JObj [(''compliant'', JBool False),
                (''violatedPolicies'', JArr [] []),
                (''details'',
                 JObj [(''error'', JStr ''Failed to check compliance: Failed to fetch Meta policies: timeout of 30000ms exceeded''),
                       (''description'', JStr ''An error occurred while checking compliance'')])])"
    by code_simp
  have r2: "fst (checkAdCompliance (live_world partial_compliance_response) ad_summary new_dyn_checker) =
     Inr (JObj [(''compliant'', JBool False),
                (''violatedPolicies'', JArr [] []),
                (''details'', JObj [(''riskLevel'', JStr ''low'')])])"
    by code_simp
  have u: "field ?r ''compliant'' = JUndefined" "field ?r ''violatedPolicies'' = JUndefined"
    by (simp_all add: field_def own_def)
  from checkAdCompliance_never_rejects [of silent_world ad_summary new_dyn_checker] c1
  have "\<exists>obj. fst (checkAdCompliance silent_world ad_summary new_dyn_checker) = Inr obj \<and>
          field obj ''compliant'' = JBool False \<and> field obj ''violatedPolicies'' = JArr [] [] \<and>
          field (field obj ''details'') ''error'' = JStr (message ?e)"
    by auto
  moreover
  from checkAdCompliance_never_rejects [of "live_world partial_compliance_response" ad_summary new_dyn_checker]
    c2 u
  have "\<exists>obj. fst (checkAdCompliance (live_world partial_compliance_response) ad_summary new_dyn_checker) = Inr obj \<and>
          field obj ''compliant'' = JBool False \<and> field obj ''violatedPolicies'' = JArr [] []"
    by auto
  ultimately show ?thesis using r1 r2 by simp
qed








section \<open>Concurrent calls of getPolicies\<close>

lemma getPolicies_uncached:
  "\<not> truthy (cachedPolicies c) \<Longrightarrow> fst (getPolicies w c) = fst (getPolicies w new_dyn_checker)"
  by (simp add: getPolicies_def new_dyn_checker_def split: sum.splits)

lemma getPolicies_as_steps:
  assumes "getPolicies w c = (r, c', effs)"
  shows "run2 w w' [True, True, True] (GP_Start, pb, c, []) = (GP_Done r, pb, c', effs)"
  using assms by (auto simp: getPolicies_def split: if_splits sum.splits)

lemma gp_step_in_flight:
  assumes "in_flight w p" and "gp_step w p c = (p', c', effs)"
  shows "in_flight w p' \<and> count_list effs FetchPage = 0"
proof (cases p)
  case GP_Start
  with assms show ?thesis by simp
next
  case GP_AwaitFetch
  with assms show ?thesis
    by (auto simp: getPolicies_def new_dyn_checker_def split: sum.splits)
next
  case (GP_AwaitExtract content)
  with assms show ?thesis
    by (auto simp: getPolicies_def new_dyn_checker_def split: sum.splits)
next
  case (GP_Done r)
  with assms show ?thesis by auto
qed

lemma run2_in_flight:
  assumes "in_flight wA pa" and "in_flight wB pb"
    and "run2 wA wB sched (pa, pb, c, effs) = (pa', pb', c', effs')"
  shows "in_flight wA pa' \<and> in_flight wB pb' \<and>
         count_list effs' FetchPage = count_list effs FetchPage"
  using assms
proof (induction sched arbitrary: pa pb c effs)
  case Nil
  then show ?case by simp
next
  case (Cons first sched)
  show ?case
  proof (cases first)
    case True
    obtain p1 c1 e1 where step: "gp_step wA pa c = (p1, c1, e1)"
      by (cases "gp_step wA pa c")
    from gp_step_in_flight [OF Cons.prems(1) step]
    have ok: "in_flight wA p1" and none: "count_list e1 FetchPage = 0" by simp_all
    from Cons.prems(3) True step
    have "run2 wA wB sched (p1, pb, c1, effs @ e1) = (pa', pb', c', effs')" by simp
    from Cons.IH [OF ok Cons.prems(2) this] none show ?thesis by simp
  next
    case False
    obtain p1 c1 e1 where step: "gp_step wB pb c = (p1, c1, e1)"
      by (cases "gp_step wB pb c")
    from gp_step_in_flight [OF Cons.prems(2) step]
    have ok: "in_flight wB p1" and none: "count_list e1 FetchPage = 0" by simp_all
    from Cons.prems(3) False step
    have "run2 wA wB sched (pa, p1, c1, effs @ e1) = (pa', pb', c', effs')" by simp
    from Cons.IH [OF Cons.prems(1) ok this] none show ?thesis by simp
  qed
qed

lemma fetch_live_world: "fetchMetaPolicies (live_world []) = Inr policy_page" by code_simp
lemma fetch_other_live_world: "fetchMetaPolicies other_live_world = Inr policy_page" by code_simp
lemma extract_live_world: "extractPoliciesWithClaude (live_world []) (extractTextFromHtml (live_world []) policy_page) =
   Inr (JArr [JObj [(''category'', JStr ''Prohibited Content''),
                               (''name'', JStr ''Deceptive Practices''),
                               (''description'', JStr ''No misleading claims'')]] [])" by code_simp
lemma extract_other_live_world: "extractPoliciesWithClaude other_live_world (extractTextFromHtml other_live_world policy_page) =
   Inr (JArr [JObj [(''category'', JStr ''Restricted Content''),
                               (''name'', JStr ''Alcohol''),
                               (''description'', JStr ''Age limits apply'')]] [])" by code_simp

text \<open>
  Claim C7 says that two concurrent calls of \<^verbatim>\<open>getPolicies\<close> on an uncached checker
  trigger exactly one fetch and extraction and receive equal policy sets. The checker
  keeps no in-flight promise: the second call, issued while the first awaits its fetch,
  finds the cache empty and fetches too. Here the model answers the two extractions
  differently, and the callers receive different policy sets.
\<close>
theorem concurrent_getPolicies_counterexample:
  "run2 (live_world []) other_live_world [True, False, True, False, True, False]
     (GP_Start, GP_Start, new_dyn_checker, []) =
     (GP_Done (Inr (JArr [JObj [(''category'', JStr ''Prohibited Content''),
                               (''name'', JStr ''Deceptive Practices''),
                               (''description'', JStr ''No misleading claims'')]] [])),
      GP_Done (Inr (JArr [JObj [(''category'', JStr ''Restricted Content''),
                               (''name'', JStr ''Alcohol''),
                               (''description'', JStr ''Age limits apply'')]] [])),
      \<lparr>cachedPolicies = JArr [JObj [(''category'', JStr ''Restricted Content''),
                                    (''name'', JStr ''Alcohol''),
                                    (''description'', JStr ''Age limits apply'')]] []\<rparr>,
      [FetchPage, FetchPage, ExtractCall, ExtractCall])"
  by (simp add: new_dyn_checker_def fetch_live_world fetch_other_live_world extract_live_world extract_other_live_world)

text \<open>
  Claim C7, as amended. Two calls of \<^verbatim>\<open>getPolicies\<close> issued one after the other on an
  uncached checker, before either has settled, are not coalesced: however they are
  resumed afterwards, two fetches are issued, and a call that is done has the result of
  its own fetch and extraction.
\<close>
theorem concurrent_getPolicies_fetch_twice:
  assumes "\<not> truthy (cachedPolicies c)"
    and "run2 wA wB (True # False # sched) (GP_Start, GP_Start, c, []) = (pa, pb, c', effs)"
  shows "count_list effs FetchPage = 2 \<and>
         (\<forall>r. pa = GP_Done r \<longrightarrow> r = fst (getPolicies wA c)) \<and>
         (\<forall>r. pb = GP_Done r \<longrightarrow> r = fst (getPolicies wB c))"
proof -
  from assms have rest: "run2 wA wB sched (GP_AwaitFetch, GP_AwaitFetch, c, [FetchPage, FetchPage]) =
                           (pa, pb, c', effs)"
    by simp
  have "in_flight wA GP_AwaitFetch" and "in_flight wB GP_AwaitFetch" by simp_all
  from run2_in_flight [OF this rest]
  have "in_flight wA pa" and "in_flight wB pb" and "count_list effs FetchPage = 2"
    by simp_all
  then show ?thesis
    using getPolicies_uncached [OF assms(1)] by auto
qed

theorem concurrent_getPolicies_fetch_twice_witness:
  "count_list [FetchPage, FetchPage, ExtractCall, ExtractCall] FetchPage = 2 \<and>
   fst (getPolicies (live_world []) new_dyn_checker) \<noteq> fst (getPolicies other_live_world new_dyn_checker)"
proof -
  let ?pA = "JArr [JObj [(''category'', JStr ''Prohibited Content''),
                         (''name'', JStr ''Deceptive Practices''),
                         (''description'', JStr ''No misleading claims'')]] []"
  let ?pB = "JArr [JObj [(''category'', JStr ''Restricted Content''),
                         (''name'', JStr ''Alcohol''),
                         (''description'', JStr ''Age limits apply'')]] []"
  have u: "\<not> truthy (cachedPolicies new_dyn_checker)" by (simp add: new_dyn_checker_def)
  have run: "run2 (live_world []) other_live_world (True # False # [True, False, True, False])
               (GP_Start, GP_Start, new_dyn_checker, []) =
             (GP_Done (Inr ?pA), GP_Done (Inr ?pB), \<lparr>cachedPolicies = ?pB\<rparr>,
              [FetchPage, FetchPage, ExtractCall, ExtractCall])"
    by (simp add: new_dyn_checker_def fetch_live_world fetch_other_live_world extract_live_world extract_other_live_world)
  note both = concurrent_getPolicies_fetch_twice [OF u run]
  from both have n: "count_list [FetchPage, FetchPage, ExtractCall, ExtractCall] FetchPage = 2"
    by simp
  from both have a: "fst (getPolicies (live_world []) new_dyn_checker) = Inr ?pA"
    by simp
  from both have b: "fst (getPolicies other_live_world new_dyn_checker) = Inr ?pB"
    by simp
  show ?thesis
    unfolding a b using n by simp
qed

section \<open>The handler keeps the analysis when the policy check fails\<close>

lemma GEMINI_API_KEY_nonempty: "GEMINI_API_KEY env_key \<noteq> []"
  by (simp add: GEMINI_API_KEY_def split: option.splits)

lemma set_prop_is_object: "set_prop v k x = Inr d \<Longrightarrow> is_object d"
  by (cases v) auto

lemma analyzeMultimedia_data_object:
  assumes "analyzeMultimedia w filePath prompt = AnalysisOk data"
  shows "is_object data"
  using analyzeMultimedia_AnalysisOk [OF assms] set_prop_is_object by blast

lemma analysis_json_object:
  "is_object data \<Longrightarrow>
   analysis_json data =
     Inr (JObj [(''summary'', field data ''summary''), (''keyPoints'', field data ''keyPoints''),
                (''fileMetadata'', field data ''fileMetadata'')])"
  by (simp add: analysis_json_def get_prop_object)

lemma policy_try_fails:
  assumes "is_object data" and "apiKey \<noteq> []"
    and "policy_stage_fails w dirname (field data ''summary'') details"
  shows "\<exists>e. policy_try w apiKey dirname fileType fileInfo data timestamp = Inl e \<and>
             message e = details"
proof (cases "loadPolicyFile w (Some (policy_file_path dirname)) new_checker")
  case (Pair loaded c)
  show ?thesis
  proof (cases loaded)
    case (Inl e)
    with Pair assms show ?thesis
      by (simp add: policy_try_def new_MetaAdsPolicyChecker_def policy_stage_fails_def)
  next
    case (Inr u)
    with Pair assms show ?thesis
      by (cases "fst (checkPolicy w (field data ''summary'') None c)")
         (simp_all add: policy_try_def new_MetaAdsPolicyChecker_def policy_stage_fails_def
                        get_prop_object)
  qed
qed

text \<open>
  Claim C2. When the summarization has succeeded and the policy-check stage fails, the
  handler answers with \<open>success = true\<close>, the analysis (\<open>summary\<close>, \<open>keyPoints\<close>,
  \<open>fileMetadata\<close> of the summarizer's data) and a \<open>policyCheck\<close> object made of the
  error \<^verbatim>\<open>Policy analysis failed\<close> and the message of the failure; the request does not
  fail.
\<close>
theorem policy_failure_keeps_analysis:
  assumes "analyzeMultimedia w0 (path f) analysisPrompt = AnalysisOk data"
    and "policy_stage_fails w dirname (field data ''summary'') details"
  shows "summarize_handler w env_key dirname uploadDate timestamp (Some f) (AnalysisOk data) =
           Response 201
             (JObj [(''success'', JBool True),
                    (''message'', JStr (capitalize (fileType_of w (originalname f)) @
                       '' analyzed successfully, but policy check failed'')),
                    (''fileInfo'', fileInfo_json f (fileType_of w (originalname f)) uploadDate),
                    (''analysis'',
                     JObj [(''summary'', field data ''summary''),
                           (''keyPoints'', field data ''keyPoints''),
                           (''fileMetadata'', field data ''fileMetadata'')]),
                    (''policyCheck'',
                     JObj [(''error'', JStr ''Policy analysis failed''),
                           (''details'', JStr details)]),
                    (''timestamp'', JStr timestamp)])"
proof -
  let ?ft = "fileType_of w (originalname f)"
  let ?fi = "fileInfo_json f ?ft uploadDate"
  from assms(1) have obj: "is_object data" by (rule analyzeMultimedia_data_object)
  from policy_try_fails [OF obj GEMINI_API_KEY_nonempty assms(2)]
  obtain e where e: "policy_try w (GEMINI_API_KEY env_key) dirname ?ft ?fi data timestamp = Inl e"
    and m: "message e = details"
    by blast
  have "analysis_try w (GEMINI_API_KEY env_key) dirname ?ft ?fi (AnalysisOk data) timestamp =
          Inr (Response 201
             (JObj [(''success'', JBool True),
                    (''message'', JStr (capitalize ?ft @
                       '' analyzed successfully, but policy check failed'')),
                    (''fileInfo'', ?fi),
                    (''analysis'',
                     JObj [(''summary'', field data ''summary''),
                           (''keyPoints'', field data ''keyPoints''),
                           (''fileMetadata'', field data ''fileMetadata'')]),
                    (''policyCheck'',
                     JObj [(''error'', JStr ''Policy analysis failed''),
                           (''details'', JStr details)]),
                    (''timestamp'', JStr timestamp)]))"
    using e m GEMINI_API_KEY_nonempty [of env_key]
    by (simp add: analysis_try_def new_SummarizeMultiMedia_def policy_catch_def
                  analysis_json_object [OF obj])
  then show ?thesis
    by (simp add: summarize_handler_def Let_def)
qed

theorem policy_failure_keeps_analysis_witness:
  "\<exists>data.
     analyzeMultimedia (media_world summary_response ''2024-01-15T10:30:00.000Z'')
       (path sample_upload) analysisPrompt = AnalysisOk data \<and>
     field data ''summary'' = JStr ''A cat plays.'' \<and>
     summarize_handler timeout_world None ''/app'' ''2024-01-15T10:29:58.000Z''
       ''2024-01-15T10:30:05.000Z'' (Some sample_upload) (AnalysisOk data) =
       Response 201
         (JObj [(''success'', JBool True),
                (''message'', JStr ''Video analyzed successfully, but policy check failed''),
                (''fileInfo'',
                 JObj [(''originalName'', JStr ''cat.mp4''),
                       (''filename'', JStr ''file-1700000000000-123456789.mp4''),
                       (''fileSize'', JNum (Finite 2048)),
                       (''fileType'', JStr ''video''),
                       (''uploadDate'', JStr ''2024-01-15T10:29:58.000Z'')]),
                (''analysis'',
                 JObj [(''summary'', JStr ''A cat plays.''),
                       (''keyPoints'', field data ''keyPoints''),
                       (''fileMetadata'', field data ''fileMetadata'')]),
                (''policyCheck'',
                 JObj [(''error'', JStr ''Policy analysis failed''),
                       (''details'', JStr ''Policy analysis failed: The operation was aborted due to timeout'')]),
                (''timestamp'', JStr ''2024-01-15T10:30:05.000Z'')])"
proof -
  let ?w = "media_world summary_response ''2024-01-15T10:30:00.000Z''"
  let ?s = "JObj [(''summary'', JStr ''A cat plays.''),
                  (''keyPoints'', JArr [JStr ''cat'', JStr ''toy''] [])]"
  have p: "path sample_upload = media_path" by (simp add: sample_upload_def)
  have a1: "sm_validateInput media_path analysisPrompt = None" by code_simp
  have a2: "validateMultimediaFile ?w media_path = Valid ''video/mp4'' 2048 ''video''"
    by (simp add: validateMultimediaFile_def media_world_def media_path_def maxFileSize_def
                  supportedFormats_def supportedVideoFormats_def supportedImageFormats_def)
  have a3: "fileToBase64 ?w media_path = Inr ''AAAAIGZ0eXBpc29t''" by code_simp
  have a4: "gemini_generate ?w = Inr summary_response" by (simp add: media_world_def)
  have pa: "parse_analysis ?w summary_response = ?s" by code_simp
  obtain data where s: "set_prop (parse_analysis ?w summary_response) ''fileMetadata''
                          (fileMetadata ?w media_path 2048 ''video/mp4'' ''video'') = Inr data"
    using set_prop_object [of "parse_analysis ?w summary_response"] pa by auto
  have r: "analyzeMultimedia ?w (path sample_upload) analysisPrompt = AnalysisOk data"
    unfolding p using a1 a2 a3 a4 s by (rule analyzeMultimedia_reaches_parse)
  have sm: "field data ''summary'' = JStr ''A cat plays.''"
    using set_prop_field_other [OF s, of "''summary''"] pa by (simp add: field_def own_def)
  have ld: "loadPolicyFile timeout_world (Some (policy_file_path ''/app'')) new_checker =
              (Inr (), loaded_checker)"
    by code_simp
  have cp: "fst (checkPolicy timeout_world (JStr ''A cat plays.'') None loaded_checker) =
              CheckFailed ''The operation was aborted due to timeout'' ''2024-01-15T10:30:00.000Z''"
    by code_simp
  have f: "policy_stage_fails timeout_world ''/app'' (field data ''summary'')
             ''Policy analysis failed: The operation was aborted due to timeout''"
    by (simp add: policy_stage_fails_def ld sm cp)
  have ft: "fileType_of timeout_world (originalname sample_upload) = ''video''" by code_simp
  have cap: "capitalize ''video'' = ''Video''" by code_simp
  have fi: "fileInfo_json sample_upload ''video'' ''2024-01-15T10:29:58.000Z'' =
              JObj [(''originalName'', JStr ''cat.mp4''),
                    (''filename'', JStr ''file-1700000000000-123456789.mp4''),
                    (''fileSize'', JNum (Finite 2048)),
                    (''fileType'', JStr ''video''),
                    (''uploadDate'', JStr ''2024-01-15T10:29:58.000Z'')]"
    by (simp add: fileInfo_json_def sample_upload_def)
  from policy_failure_keeps_analysis [OF r f, of None "''2024-01-15T10:29:58.000Z''"
         "''2024-01-15T10:30:05.000Z''"]
  have "summarize_handler timeout_world None ''/app'' ''2024-01-15T10:29:58.000Z''
          ''2024-01-15T10:30:05.000Z'' (Some sample_upload) (AnalysisOk data) =
        Response 201
         (JObj [(''success'', JBool True),
                (''message'', JStr ''Video analyzed successfully, but policy check failed''),
                (''fileInfo'',
                 JObj [(''originalName'', JStr ''cat.mp4''),
                       (''filename'', JStr ''file-1700000000000-123456789.mp4''),
                       (''fileSize'', JNum (Finite 2048)),
                       (''fileType'', JStr ''video''),
                       (''uploadDate'', JStr ''2024-01-15T10:29:58.000Z'')]),
                (''analysis'',
                 JObj [(''summary'', JStr ''A cat plays.''),
                       (''keyPoints'', field data ''keyPoints''),
                       (''fileMetadata'', field data ''fileMetadata'')]),
                (''policyCheck'',
                 JObj [(''error'', JStr ''Policy analysis failed''),
                       (''details'', JStr ''Policy analysis failed: The operation was aborted due to timeout'')]),
                (''timestamp'', JStr ''2024-01-15T10:30:05.000Z'')])"
    by (simp only: ft cap fi sm append.simps list.simps)
  with r sm show ?thesis by blast
qed

end
